theory Spec2Isabelle
  imports Main "HOL-Library.Sublist"
begin

section \<open>Python values used by flow_tools\<close>

text \<open>
  Exceptions are values. Only \<open>JIRAError\<close> is ever caught by the code; every other
  exception propagates to the caller. \<open>OtherError\<close> stands for what the client libraries
  raise on their own (a network failure of requests, for instance).
\<close>

datatype exn =
    JIRAError
  | KeyError string
  | IndexError
  | RuntimeError string
  | AssertionError
  | IntegrityError
  | OtherError string

definition ebind :: "exn + 'a \<Rightarrow> ('a \<Rightarrow> exn + 'b) \<Rightarrow> exn + 'b" where
  "ebind m f = (case m of Inl e \<Rightarrow> Inl e | Inr x \<Rightarrow> f x)"

text \<open>\<open>xs[i]\<close> for a non-negative index: IndexError out of range.\<close>

definition py_index :: "'a list \<Rightarrow> nat \<Rightarrow> exn + 'a" where
  "py_index xs i = (if i < length xs then Inr (xs ! i) else Inl IndexError)"

text \<open>\<open>d.get(k, default)\<close> on a dict modelled as a map.\<close>

definition dict_get :: "('k \<rightharpoonup> 'v) \<Rightarrow> 'k \<Rightarrow> 'v \<Rightarrow> 'v" where
  "dict_get d k dflt = (case d k of None \<Rightarrow> dflt | Some v \<Rightarrow> v)"

subsection \<open>String methods\<close>

text \<open>
  The messages and transition names come out of parsed JSON, so they are Python 2
  unicode strings. A \<open>char\<close> is one code point below 256; the whitespace and line
  boundary tables are those of unicode restricted to that range (U+2028 and U+2029 are
  not representable).
\<close>

definition isspace :: "char \<Rightarrow> bool" where
  "isspace c = (of_char c \<in> set [9, 10, 11, 12, 13, 28, 29, 30, 31, 32, 133, 160 :: nat])"

definition strip :: "string \<Rightarrow> string" where
  "strip s = rev (dropWhile isspace (rev (dropWhile isspace s)))"

text \<open>\<open>sub in s\<close>\<close>

fun str_contains :: "string \<Rightarrow> string \<Rightarrow> bool" where
  "str_contains sub [] = (sub = [])"
| "str_contains sub (c # cs) = (prefix sub (c # cs) \<or> str_contains sub cs)"

text \<open>\<open>s.split(sep, 1)\<close> for a non-empty separator: cut at its first occurrence.\<close>

fun split1 :: "string \<Rightarrow> string \<Rightarrow> string list" where
  "split1 sep [] = [[]]"
| "split1 sep (c # cs) =
     (if prefix sep (c # cs) then [[], drop (length sep) (c # cs)]
      else (case split1 sep cs of [] \<Rightarrow> [c # cs] | p # ps \<Rightarrow> (c # p) # ps))"

text \<open>\<open>s.split(sep)\<close> for a one-character separator: cut at every occurrence.\<close>

fun split_on :: "char \<Rightarrow> string \<Rightarrow> string list" where
  "split_on sep [] = [[]]"
| "split_on sep (c # cs) =
     (if c = sep then [] # split_on sep cs
      else (case split_on sep cs of [] \<Rightarrow> [[c]] | p # ps \<Rightarrow> (c # p) # ps))"

definition is_linebreak :: "char \<Rightarrow> bool" where
  "is_linebreak c = (of_char c \<in> set [10, 11, 12, 13, 28, 29, 30, 133 :: nat])"

text \<open>
  \<open>s.splitlines()\<close>: the first argument is the line read so far. CR LF is one boundary,
  and a boundary at the very end opens no further line.
\<close>

fun splitlines_from :: "string \<Rightarrow> string \<Rightarrow> string list" where
  "splitlines_from cur [] = (if cur = [] then [] else [cur])"
| "splitlines_from cur [c] = (if is_linebreak c then [cur] else [cur @ [c]])"
| "splitlines_from cur (c # d # cs) =
     (if c = CHR 0x0D \<and> d = CHR 0x0A then cur # splitlines_from [] cs
      else if is_linebreak c then cur # splitlines_from [] (d # cs)
      else splitlines_from (cur @ [c]) (d # cs))"

definition splitlines :: "string \<Rightarrow> string list" where
  "splitlines s = splitlines_from [] s"

section \<open>jira_util\<close>

text \<open>What the code reads of an issue: \<open>issue.key\<close> and \<open>issue.fields.status.name\<close>.\<close>

record jira_issue =
  key :: string
  status_name :: string

text \<open>One entry of \<open>jira_client.transitions(issue)\<close>: the dict's 'id' and 'name'.\<close>

record transition =
  transition_id :: string
  transition_name :: string

record resolution =
  resolution_name :: string
  resolution_id :: string

text \<open>
  The fields of the message that make_jira_message fills into its fixed template; the
  rendering of the template itself is not modelled.
\<close>

record jira_message =
  msg_goal_state :: string
  msg_owner :: string
  msg_branch :: string
  msg_current_revision :: string
  msg_change_id :: string

text \<open>
  The tracker is an external, stateful service. Its state is an opaque \<open>'j\<close>; the client
  is the record of the calls the code makes. A call that raises leaves \<open>Inl\<close>.
\<close>

record 'j jira_client =
  resolutions :: "'j \<Rightarrow> exn + resolution list"
  issue :: "'j \<Rightarrow> string \<Rightarrow> exn + jira_issue"
  transitions :: "'j \<Rightarrow> jira_issue \<Rightarrow> exn + transition list"
  transition_issue :: "'j \<Rightarrow> jira_issue \<Rightarrow> string \<Rightarrow> string option \<Rightarrow> exn + 'j"
  add_comment :: "'j \<Rightarrow> jira_issue \<Rightarrow> jira_message \<Rightarrow> exn + 'j"

text \<open>
  The body of the loop of get_transition_to up to the \<open>continue\<close>: the end state named
  by a transition, \<open>None\<close> where the code logs a warning and continues.
\<close>

definition transition_tstate :: "string \<Rightarrow> exn + string option" where
  "transition_tstate name =
     (if str_contains '':'' name then
        ebind (py_index (split1 '':'' name) 1) (\<lambda>part. Inr (Some (strip part)))
      else if str_contains ''->'' name then
        ebind (py_index (split1 ''->'' name) 1) (\<lambda>part. Inr (Some (strip part)))
      else Inr None)"

text \<open>The loop of get_transition_to; the accumulator is \<open>(tid, available_states)\<close>.\<close>

fun transition_loop ::
  "string \<Rightarrow> transition list \<Rightarrow> string option \<times> string list \<Rightarrow> exn + (string option \<times> string list)"
where
  "transition_loop target_state [] acc = Inr acc"
| "transition_loop target_state (t # ts) (tid, available_states) =
     (case transition_tstate (transition_name t) of
        Inl e \<Rightarrow> Inl e
      | Inr None \<Rightarrow> transition_loop target_state ts (tid, available_states)
      | Inr (Some tstate) \<Rightarrow>
          transition_loop target_state ts
            (if tstate = target_state then Some (transition_id t) else tid,
             available_states @ [tstate]))"

definition get_transition_to ::
  "'j jira_client \<Rightarrow> 'j \<Rightarrow> jira_issue \<Rightarrow> string \<Rightarrow> exn + (string option \<times> string list)"
where
  "get_transition_to jira_client j iss target_state =
     ebind (transitions jira_client j iss)
       (\<lambda>ts. transition_loop target_state ts (None, []))"

definition is_nominal_transition :: "(string \<rightharpoonup> string list) \<Rightarrow> string \<Rightarrow> string \<Rightarrow> bool" where
  "is_nominal_transition nominal_flow from_state to_state =
     (to_state \<in> set (dict_get nominal_flow from_state []))"

section \<open>gerrit_util\<close>

text \<open>
  The dict returned by get_message_meta. 'Closes' and 'Resolves' are always present;
  the four single-valued keys only once a line has set them.
\<close>

record message_meta =
  Feature_Branch :: "string option"
  Base_Branch :: "string option"
  Relative_To_Branch :: "string option"
  ChangeId :: "string option"
  Closes :: "string list"
  Resolves :: "string list"

definition empty_meta :: message_meta where
  "empty_meta = \<lparr>Feature_Branch = None, Base_Branch = None, Relative_To_Branch = None,
     ChangeId = None, Closes = [], Resolves = []\<rparr>"

text \<open>The body of the loop over the lines of the commit message.\<close>

definition meta_line :: "string \<Rightarrow> message_meta \<Rightarrow> message_meta" where
  "meta_line line result =
     (case split1 '':'' line of
        [k, v] \<Rightarrow>
          if k = ''Feature-Branch'' then result\<lparr>Feature_Branch := Some (strip v)\<rparr>
          else if k = ''Base-Branch'' then result\<lparr>Base_Branch := Some (strip v)\<rparr>
          else if k = ''Relative-To-Branch'' then result\<lparr>Relative_To_Branch := Some (strip v)\<rparr>
          else if k = ''ChangeId'' then result\<lparr>ChangeId := Some (strip v)\<rparr>
          else if k = ''Closes'' then
            result\<lparr>Closes := Closes result @ map strip (split_on CHR '','' (strip v))\<rparr>
          else if k = ''Resolves'' then
            result\<lparr>Resolves := Resolves result @ map strip (split_on CHR '','' (strip v))\<rparr>
          else result
      | _ \<Rightarrow> result)"

definition parse_message :: "string \<Rightarrow> message_meta" where
  "parse_message message = fold meta_line (splitlines message) empty_meta"

text \<open>
  The review system is read only. \<open>get_changes\<close> is the query of
  get_changes_from_range (project, after, before, start offset); \<open>get_commit\<close> is
  \<open>GET changes/{change_id}/revisions/{revision}/commit\<close>, giving the 'message' field of
  the parsed JSON, \<open>None\<close> when the field is absent.
\<close>

record owner_info =
  owner_name :: "string option"
  owner_email :: "string option"

text \<open>A ChangeInfo dict: each field is \<open>None\<close> when the key is absent.\<close>

record changeinfo =
  ci_change_id :: "string option"
  ci_status :: "string option"
  ci_current_revision :: "string option"
  ci_owner :: "owner_info option"
  ci_branch :: "string option"
  ci_more_changes :: "bool option"

record gerrit_client =
  get_changes :: "string \<Rightarrow> string \<Rightarrow> string \<Rightarrow> nat \<Rightarrow> exn + changeinfo list"
  get_commit :: "string \<Rightarrow> string \<Rightarrow> exn + string option"

definition get_message_meta :: "gerrit_client \<Rightarrow> string \<Rightarrow> string \<Rightarrow> exn + message_meta" where
  "get_message_meta gerrit change_id revision =
     (case get_commit gerrit change_id revision of
        Inl e \<Rightarrow> Inl e
      | Inr None \<Rightarrow> Inl (RuntimeError ''Message is not a field in returned json'')
      | Inr (Some message) \<Rightarrow> Inr (parse_message message))"

section \<open>orm\<close>

text \<open>
  The three tables. A table is the list of its rows in the order of their \<open>rid\<close>, the
  autoincremented primary key: a row added later stands later in the list. Times are
  microseconds since the epoch. The columns \<open>issue\<close> and \<open>changeid\<close> of
  gerrit_jira_map are \<open>map_issue\<close> and \<open>map_changeid\<close> here, the columns \<open>time\<close> and
  \<open>issue\<close> of gerrit_jira_log are \<open>log_time\<close> and \<open>log_issue\<close>.
\<close>

record GerritJira =
  map_issue :: string
  map_changeid :: string

record GerritJiraTrans =
  log_time :: int
  log_issue :: string
  from_status :: string
  to_status :: string

record PollHistory =
  period_start :: int
  period_end :: int
  status :: int

record tables =
  gerrit_jira_map :: "GerritJira list"
  gerrit_jira_log :: "GerritJiraTrans list"
  poll_history :: "PollHistory list"

text \<open>
  A session: \<open>view\<close> is what its queries see (the rows of the open transaction),
  \<open>stored\<close> is what has been committed. Work that is never committed is lost when the
  process ends.
\<close>

record session =
  "view" :: tables
  stored :: tables

definition commit :: "session \<Rightarrow> session" where
  "commit s = s\<lparr>stored := view s\<rparr>"

text \<open>
  \<open>sql.add(GerritJira(...))\<close>: the table's UniqueConstraint('changeid', 'issue')
  refuses a pair that is already there.
\<close>

definition add_GerritJira :: "GerritJira \<Rightarrow> session \<Rightarrow> exn + session" where
  "add_GerritJira row s =
     (if row \<in> set (gerrit_jira_map (view s)) then Inl IntegrityError
      else Inr (s\<lparr>view := (view s)\<lparr>gerrit_jira_map := gerrit_jira_map (view s) @ [row]\<rparr>\<rparr>))"

definition add_GerritJiraTrans :: "GerritJiraTrans \<Rightarrow> session \<Rightarrow> session" where
  "add_GerritJiraTrans row s =
     s\<lparr>view := (view s)\<lparr>gerrit_jira_log := gerrit_jira_log (view s) @ [row]\<rparr>\<rparr>"

definition add_PollHistory :: "PollHistory \<Rightarrow> session \<Rightarrow> session" where
  "add_PollHistory row s =
     s\<lparr>view := (view s)\<lparr>poll_history := poll_history (view s) @ [row]\<rparr>\<rparr>"

text \<open>\<open>sql.query(orm.GerritJira).filter_by(issue=..., changeid=...).count()\<close>\<close>

definition count_pair :: "string \<Rightarrow> string \<Rightarrow> session \<Rightarrow> nat" where
  "count_pair issue_key change_id s =
     length (filter (\<lambda>r. map_issue r = issue_key \<and> map_changeid r = change_id)
       (gerrit_jira_map (view s)))"

text \<open>\<open>sql.query(orm.GerritJira).filter_by(issue=...).count()\<close>\<close>

definition count_issue :: "string \<Rightarrow> session \<Rightarrow> nat" where
  "count_issue issue_key s =
     length (filter (\<lambda>r. map_issue r = issue_key) (gerrit_jira_map (view s)))"

text \<open>\<open>sql.query(orm.GerritJira).filter_by(changeid=...).delete()\<close>\<close>

definition delete_changeid :: "string \<Rightarrow> session \<Rightarrow> session" where
  "delete_changeid change_id s =
     s\<lparr>view := (view s)\<lparr>gerrit_jira_map :=
       filter (\<lambda>r. map_changeid r \<noteq> change_id) (gerrit_jira_map (view s))\<rparr>\<rparr>"

section \<open>integrations\<close>

text \<open>
  What a run leaves behind outside the database: the lines it prints and logs, and the
  calls it makes to the tracker (the last field of a mutating call tells whether the
  tracker accepted it). The warning that get_transition_to logs for a name it cannot
  parse is not recorded, and the list of a missing transition's available states is
  recorded as returned, before the message sorts and joins it.
\<close>

datatype event =
    PrintChange string string
  | WarnNotAnIssue string
  | InfoGoal string string string
  | WarnNoPrefix string
  | InfoNonForward
  | InfoMultipleCommits
  | InfoMissingTransition "string list"
  | InfoDryRun
  | WarnSpoofing
  | CallTransitions string
  | CallTransitionIssue string string "string option" bool
  | CallAddComment string jira_message bool
  | PrintPolling int

text \<open>
  The state a run works on: the tracker, the database session, the output so far, and
  the host clock (\<open>utc_clock n\<close> is what the n-th call of \<open>datetime.utcnow()\<close> returns).
\<close>

record 'j world =
  jira :: 'j
  sql :: session
  trace :: "event list"
  utc_clock :: "nat \<Rightarrow> int"
  clock_reads :: nat

definition emit :: "event \<Rightarrow> 'j world \<Rightarrow> 'j world" where
  "emit e w = w\<lparr>trace := trace w @ [e]\<rparr>"

definition utcnow :: "'j world \<Rightarrow> int \<times> 'j world" where
  "utcnow w = (utc_clock w (clock_reads w), w\<lparr>clock_reads := Suc (clock_reads w)\<rparr>)"

text \<open>
  A statement that may raise returns the state it reached and the exception, if any.
  \<open>then_do\<close> runs the next statement unless the first one raised; \<open>for_each\<close> is a
  \<open>for\<close> loop whose body ends normally (also by \<open>continue\<close>) or raises.
\<close>

definition then_do :: "'s \<times> exn option \<Rightarrow> ('s \<Rightarrow> 's \<times> exn option) \<Rightarrow> 's \<times> exn option" where
  "then_do r f = (case r of (s, None) \<Rightarrow> f s | (s, Some e) \<Rightarrow> (s, Some e))"

fun for_each :: "('a \<Rightarrow> 's \<Rightarrow> 's \<times> exn option) \<Rightarrow> 'a list \<Rightarrow> 's \<Rightarrow> 's \<times> exn option" where
  "for_each body [] s = (s, None)"
| "for_each body (x # xs) s = then_do (body x s) (for_each body xs)"

text \<open>The first loop of update_issues_from_review: the last resolution named 'Done'.\<close>

definition find_resolve_to :: "resolution list \<Rightarrow> resolution option" where
  "find_resolve_to rs =
     fold (\<lambda>jira_res resolve_to. if resolution_name jira_res = ''Done'' then Some jira_res
                                  else resolve_to) rs None"

text \<open>
  \<open>make_jira_message\<close>: the keyword arguments are evaluated in the order written, so a
  change without owner, or an owner without name or email, raises KeyError.
\<close>

definition make_jira_message :: "changeinfo \<Rightarrow> string \<Rightarrow> exn + jira_message" where
  "make_jira_message ci goal_state =
     (case ci_owner ci of
        None \<Rightarrow> Inl (KeyError ''owner'')
      | Some ow \<Rightarrow>
     (case owner_name ow of
        None \<Rightarrow> Inl (KeyError ''name'')
      | Some n \<Rightarrow>
     (case owner_email ow of
        None \<Rightarrow> Inl (KeyError ''email'')
      | Some em \<Rightarrow>
     (case ci_current_revision ci of
        None \<Rightarrow> Inl (KeyError ''current_revision'')
      | Some revision \<Rightarrow>
     (case ci_change_id ci of
        None \<Rightarrow> Inl (KeyError ''change_id'')
      | Some cid \<Rightarrow>
          Inr \<lparr>msg_goal_state = goal_state,
               msg_owner = n @ '' <'' @ em @ ''>'',
               msg_branch = (case ci_branch ci of None \<Rightarrow> ''?'' | Some b \<Rightarrow> b),
               msg_current_revision = revision,
               msg_change_id = cid\<rparr>)))))"

text \<open>
  The list \<open>resolutions\<close> of a change: for the key 'Closes', then 'Resolves', each
  issue of the commit message with \<open>tag_map[key]\<close>. The tag map is a dict, modelled as an
  association list with distinct keys; \<open>tag_map[key]\<close> is only evaluated for a key that
  has an issue.
\<close>

fun append_resolutions ::
  "(string \<times> string) list \<Rightarrow> string \<Rightarrow> string list \<Rightarrow> (string \<times> string) list
   \<Rightarrow> exn + (string \<times> string) list"
where
  "append_resolutions tag_map k [] pairs = Inr pairs"
| "append_resolutions tag_map k (iss # rest) pairs =
     (case map_of tag_map k of
        None \<Rightarrow> Inl (KeyError k)
      | Some st \<Rightarrow> append_resolutions tag_map k rest (pairs @ [(iss, st)]))"

definition change_resolutions ::
  "(string \<times> string) list \<Rightarrow> message_meta \<Rightarrow> exn + (string \<times> string) list"
where
  "change_resolutions tag_map change_meta =
     ebind (append_resolutions tag_map ''Closes'' (Closes change_meta) [])
       (append_resolutions tag_map ''Resolves'' (Resolves change_meta))"

text \<open>Lines 185 to 192: add the association unless the session already sees it.\<close>

definition upsert_association :: "string \<Rightarrow> string \<Rightarrow> session \<Rightarrow> exn + session" where
  "upsert_association issue_key change_id s =
     (if count_pair issue_key change_id s = 0 then
        ebind (add_GerritJira \<lparr>map_issue = issue_key, map_changeid = change_id\<rparr> s)
          (\<lambda>s'. Inr (commit s'))
      else Inr s)"

text \<open>Lines 194 to 201.\<close>

definition goal_state_of :: "string \<Rightarrow> string \<Rightarrow> string" where
  "goal_state_of change_status resolution =
     (if change_status = ''MERGED'' then resolution
      else if change_status = ''DRAFT'' then ''In Progress''
      else ''In Review'')"

definition call_transition_issue ::
  "'j jira_client \<Rightarrow> jira_issue \<Rightarrow> string \<Rightarrow> string option \<Rightarrow> 'j world \<Rightarrow> 'j world \<times> exn option"
where
  "call_transition_issue jira_client iss tid res w =
     (case transition_issue jira_client (jira w) iss tid res of
        Inl e \<Rightarrow> (emit (CallTransitionIssue (key iss) tid res False) w, Some e)
      | Inr j \<Rightarrow> ((emit (CallTransitionIssue (key iss) tid res True) w)\<lparr>jira := j\<rparr>, None))"

definition call_add_comment ::
  "'j jira_client \<Rightarrow> jira_issue \<Rightarrow> jira_message \<Rightarrow> 'j world \<Rightarrow> 'j world \<times> exn option"
where
  "call_add_comment jira_client iss message w =
     (case add_comment jira_client (jira w) iss message of
        Inl e \<Rightarrow> (emit (CallAddComment (key iss) message False) w, Some e)
      | Inr j \<Rightarrow> ((emit (CallAddComment (key iss) message True) w)\<lparr>jira := j\<rparr>, None))"

text \<open>Lines 250 to 255: one row of the transition log, committed at once.\<close>

definition log_transition :: "string \<Rightarrow> string \<Rightarrow> string \<Rightarrow> 'j world \<Rightarrow> 'j world \<times> exn option" where
  "log_transition issue_key from_state goal_state w =
     (case utcnow w of
        (now, w') \<Rightarrow>
          (w'\<lparr>sql := commit (add_GerritJiraTrans
                 \<lparr>log_time = now, log_issue = issue_key, from_status = from_state,
                  to_status = goal_state\<rparr> (sql w'))\<rparr>, None))"

text \<open>
  Lines 236 to 255. With a goal state among the values of the tag map, a JIRAError of
  the transition or of the comment is caught and the code goes on to the log row.
\<close>

definition apply_transition ::
  "'j jira_client \<Rightarrow> (string \<times> string) list \<Rightarrow> resolution \<Rightarrow> changeinfo \<Rightarrow> string \<Rightarrow> jira_issue
   \<Rightarrow> string \<Rightarrow> string \<Rightarrow> 'j world \<Rightarrow> 'j world \<times> exn option"
where
  "apply_transition jira_client tag_map resolve_to ci issue_key iss goal_state tid w =
     (case make_jira_message ci goal_state of
        Inl e \<Rightarrow> (w, Some e)
      | Inr message \<Rightarrow>
          if goal_state \<in> set (map snd tag_map) then
            (case then_do
                    (call_transition_issue jira_client iss tid (Some (resolution_id resolve_to)) w)
                    (call_add_comment jira_client iss message) of
               (w1, None) \<Rightarrow> log_transition issue_key (status_name iss) goal_state w1
             | (w1, Some e) \<Rightarrow>
                 if e = JIRAError
                 then log_transition issue_key (status_name iss) goal_state (emit WarnSpoofing w1)
                 else (w1, Some e))
          else
            then_do
              (then_do (call_transition_issue jira_client iss tid None w)
                 (call_add_comment jira_client iss message))
              (log_transition issue_key (status_name iss) goal_state))"

text \<open>Lines 206 to 255: what follows once the goal state is known.\<close>

definition advance_issue ::
  "'j jira_client \<Rightarrow> bool \<Rightarrow> (string \<rightharpoonup> (string \<rightharpoonup> string list)) \<Rightarrow> (string \<times> string) list
   \<Rightarrow> resolution \<Rightarrow> changeinfo \<Rightarrow> string \<Rightarrow> jira_issue \<Rightarrow> string \<Rightarrow> 'j world
   \<Rightarrow> 'j world \<times> exn option"
where
  "advance_issue jira_client dry_run nominal_flow tag_map resolve_to ci issue_key iss goal_state w =
     (if CHR ''-'' \<notin> set (key iss) then (emit (WarnNoPrefix issue_key) w, None)
      else
        (case py_index (split_on CHR ''-'' (key iss)) 0 of
           Inl e \<Rightarrow> (w, Some e)
         | Inr project_key \<Rightarrow>
             if \<not> is_nominal_transition (dict_get nominal_flow project_key Map.empty)
                    (status_name iss) goal_state
             then (emit InfoNonForward w, None)
             else if count_issue issue_key (sql w) > 1
             then (emit InfoMultipleCommits w, None)
             else
               (case get_transition_to jira_client (jira w) iss goal_state of
                  Inl e \<Rightarrow> (emit (CallTransitions (key iss)) w, Some e)
                | Inr (None, available_states) \<Rightarrow>
                    (emit (InfoMissingTransition available_states)
                       (emit (CallTransitions (key iss)) w), None)
                | Inr (Some tid, available_states) \<Rightarrow>
                    if dry_run then (emit InfoDryRun (emit (CallTransitions (key iss)) w), None)
                    else apply_transition jira_client tag_map resolve_to ci issue_key iss
                           goal_state tid (emit (CallTransitions (key iss)) w))))"

text \<open>Lines 176 to 255: the body of the loop over \<open>resolutions\<close>.\<close>

definition process_pair ::
  "'j jira_client \<Rightarrow> bool \<Rightarrow> (string \<rightharpoonup> (string \<rightharpoonup> string list)) \<Rightarrow> (string \<times> string) list
   \<Rightarrow> resolution \<Rightarrow> changeinfo \<Rightarrow> string \<Rightarrow> string \<Rightarrow> string \<times> string \<Rightarrow> 'j world
   \<Rightarrow> 'j world \<times> exn option"
where
  "process_pair jira_client dry_run nominal_flow tag_map resolve_to ci change_id change_status pr w =
     (case pr of
        (issue_key, resolution) \<Rightarrow>
          (case issue jira_client (jira w) issue_key of
             Inl e \<Rightarrow> if e = JIRAError then (emit (WarnNotAnIssue issue_key) w, None)
                      else (w, Some e)
           | Inr iss \<Rightarrow>
               (case upsert_association issue_key change_id (sql w) of
                  Inl e \<Rightarrow> (w, Some e)
                | Inr s \<Rightarrow>
                    advance_issue jira_client dry_run nominal_flow tag_map resolve_to ci
                      issue_key iss (goal_state_of change_status resolution)
                      (emit (InfoGoal issue_key (status_name iss)
                               (goal_state_of change_status resolution))
                         (w\<lparr>sql := s\<rparr>)))))"

text \<open>Lines 157 to 255: the body of the loop over the changes of a page.\<close>

definition process_change ::
  "gerrit_client \<Rightarrow> 'j jira_client \<Rightarrow> bool \<Rightarrow> (string \<rightharpoonup> (string \<rightharpoonup> string list))
   \<Rightarrow> (string \<times> string) list \<Rightarrow> resolution \<Rightarrow> changeinfo \<Rightarrow> 'j world \<Rightarrow> 'j world \<times> exn option"
where
  "process_change gerrit jira_client dry_run nominal_flow tag_map resolve_to ci w =
     (let w0 = emit (PrintChange (case ci_change_id ci of None \<Rightarrow> ''??'' | Some c \<Rightarrow> c)
                                 (case ci_status ci of None \<Rightarrow> ''??'' | Some st \<Rightarrow> st)) w
      in
      case ci_status ci of
        None \<Rightarrow> (w0, Some (KeyError ''status''))
      | Some change_status \<Rightarrow>
     (case ci_change_id ci of
        None \<Rightarrow> (w0, Some (KeyError ''change_id''))
      | Some change_id \<Rightarrow>
          if change_status = ''ABANDONED''
          then (w0\<lparr>sql := delete_changeid change_id (sql w0)\<rparr>, None)
          else
            (case ci_current_revision ci of
               None \<Rightarrow> (w0, Some (KeyError ''current_revision''))
             | Some revision \<Rightarrow>
            (case ebind (get_message_meta gerrit change_id revision)
                    (change_resolutions tag_map) of
               Inl e \<Rightarrow> (w0, Some e)
             | Inr pairs \<Rightarrow>
                 for_each (process_pair jira_client dry_run nominal_flow tag_map resolve_to ci
                             change_id change_status) pairs w0))))"

text \<open>
  The \<open>while has_more_changes\<close> loop. The review system may announce further pages for
  ever, so the loop carries fuel: \<open>None\<close> is a run that has not ended within it.
\<close>

fun poll_pages ::
  "nat \<Rightarrow> gerrit_client \<Rightarrow> 'j jira_client \<Rightarrow> string \<Rightarrow> string \<Rightarrow> string \<Rightarrow> bool
   \<Rightarrow> (string \<rightharpoonup> (string \<rightharpoonup> string list)) \<Rightarrow> (string \<times> string) list \<Rightarrow> resolution
   \<Rightarrow> nat \<Rightarrow> 'j world \<Rightarrow> ('j world \<times> exn option) option"
where
  "poll_pages 0 gerrit jira_client project start_time end_time dry_run nominal_flow tag_map
     resolve_to offset w = None"
| "poll_pages (Suc fuel) gerrit jira_client project start_time end_time dry_run nominal_flow
     tag_map resolve_to offset w =
     (case get_changes gerrit project start_time end_time offset of
        Inl e \<Rightarrow> Some (w, Some e)
      | Inr response \<Rightarrow>
          (case for_each (process_change gerrit jira_client dry_run nominal_flow tag_map
                            resolve_to) response w of
             (w', Some e) \<Rightarrow> Some (w', Some e)
           | (w', None) \<Rightarrow>
               if response \<noteq> [] \<and>
                  (case ci_more_changes (last response) of None \<Rightarrow> False | Some flag \<Rightarrow> flag)
               then poll_pages fuel gerrit jira_client project start_time end_time dry_run
                      nominal_flow tag_map resolve_to (offset + length response) w'
               else Some (w', None)))"

definition update_issues_from_review ::
  "nat \<Rightarrow> gerrit_client \<Rightarrow> 'j jira_client \<Rightarrow> string \<Rightarrow> string \<Rightarrow> string \<Rightarrow> bool
   \<Rightarrow> (string \<rightharpoonup> (string \<rightharpoonup> string list)) \<Rightarrow> (string \<times> string) list \<Rightarrow> 'j world
   \<Rightarrow> ('j world \<times> exn option) option"
where
  "update_issues_from_review fuel gerrit jira_client project start_time end_time dry_run
     nominal_flow tag_map w =
     (case resolutions jira_client (jira w) of
        Inl e \<Rightarrow> Some (w, Some e)
      | Inr rs \<Rightarrow>
          (case find_resolve_to rs of
             None \<Rightarrow> Some (w, Some AssertionError)
           | Some resolve_to \<Rightarrow>
               poll_pages fuel gerrit jira_client project start_time end_time dry_run
                 nominal_flow tag_map resolve_to 0 w))"

section \<open>IncrementJiraFromGerrit\<close>

text \<open>\<open>datetime.timedelta(weeks=1)\<close>, in microseconds.\<close>

definition one_week :: int where
  "one_week = 7 * 24 * 60 * 60 * 1000000"

text \<open>
  The query \<open>filter_by(status=0).order_by(rid.desc()).slice(0, 1)\<close>: at most one row, the
  one added last among those of status 0.
\<close>

definition last_success :: "PollHistory list \<Rightarrow> PollHistory list" where
  "last_success rows = take 1 (rev (filter (\<lambda>r. status r = 0) rows))"

text \<open>Lines 209 to 220: the window \<open>(start_time, end_time)\<close> of a poll at \<open>end_time\<close>.\<close>

definition poll_window :: "int \<Rightarrow> PollHistory list \<Rightarrow> int \<times> int" where
  "poll_window end_time rows =
     (fold (\<lambda>record start_time. period_end record) (last_success rows) (end_time - one_week),
      end_time)"

text \<open>
  \<open>run_args\<close> of IncrementJiraFromGerrit, from line 207 on. \<open>strftime\<close> renders a time
  in GERRIT_TIME_FMT; the clients, the flow and the tag map come from the configuration.
  The \<open>finally\<close> clause runs whether or not update_issues_from_review raised, and the
  exception, if any, is raised again after it.
\<close>

definition run_args ::
  "nat \<Rightarrow> (int \<Rightarrow> string) \<Rightarrow> gerrit_client \<Rightarrow> 'j jira_client
   \<Rightarrow> (string \<rightharpoonup> (string \<rightharpoonup> string list)) \<Rightarrow> (string \<times> string) list \<Rightarrow> string \<Rightarrow> bool
   \<Rightarrow> 'j world \<Rightarrow> ('j world \<times> exn option) option"
where
  "run_args fuel strftime gerrit jira_client nominal_flow tag_map project dry_run w =
     (case utcnow w of
        (end_time, w1) \<Rightarrow>
          (case poll_window end_time (poll_history (view (sql w1))) of
             (start_time, _) \<Rightarrow>
               (case update_issues_from_review fuel gerrit jira_client project
                       (strftime start_time) (strftime end_time) dry_run nominal_flow tag_map
                       (emit (PrintPolling end_time) w1) of
                  None \<Rightarrow> None
                | Some (w2, raised) \<Rightarrow>
                    Some (if \<not> dry_run
                          then w2\<lparr>sql := commit (add_PollHistory
                                 \<lparr>period_start = start_time, period_end = end_time,
                                  status = (if raised = None then 0 else - 1)\<rparr> (sql w2))\<rparr>
                          else w2,
                          raised))))"

section \<open>Reference definitions for the statements\<close>

text \<open>
  The end state a transition name denotes, without the exception plumbing of
  \<open>transition_tstate\<close>: the text after the first colon, else after the first arrow,
  trimmed. A name that contains the separator is cut into two parts, so the index is in
  range. \<open>matching\<close> selects the transitions that lead to a target state.
\<close>

definition destination :: "string \<Rightarrow> string option" where
  "destination name =
     (if str_contains '':'' name then Some (strip (split1 '':'' name ! 1))
      else if str_contains ''->'' name then Some (strip (split1 ''->'' name ! 1))
      else None)"

definition matching :: "string \<Rightarrow> transition list \<Rightarrow> transition list" where
  "matching target ts = filter (\<lambda>t. destination (transition_name t) = Some target) ts"

text \<open>
  The tag extractor in the spec's words: a line is cut at its first colon into key and
  value, and a line whose key is the tag contributes the trimmed entries of its
  comma-separated value.
\<close>

definition recognised_keys :: "string list" where
  "recognised_keys = [''Feature-Branch'', ''Base-Branch'', ''Relative-To-Branch'', ''ChangeId'',
     ''Closes'', ''Resolves'']"

definition line_key :: "string \<Rightarrow> string" where
  "line_key line = takeWhile (\<lambda>c. c \<noteq> CHR '':'') line"

definition line_value :: "string \<Rightarrow> string" where
  "line_value line = tl (dropWhile (\<lambda>c. c \<noteq> CHR '':'') line)"

definition tag_entries :: "string \<Rightarrow> string \<Rightarrow> string list" where
  "tag_entries tag line =
     (if CHR '':'' \<in> set line \<and> line_key line = tag
      then map strip (split_on CHR '','' (strip (line_value line))) else [])"

text \<open>
  What a step added to the output, and the kinds of tracker calls in it: a lookup is
  \<open>jira_client.transitions\<close>, a write is \<open>transition_issue\<close> or \<open>add_comment\<close>.
\<close>

definition new_events :: "'j world \<Rightarrow> 'j world \<Rightarrow> event list" where
  "new_events w w' = drop (length (trace w)) (trace w')"

fun is_transition_call :: "event \<Rightarrow> bool" where
  "is_transition_call (CallTransitionIssue k tid res ok) = True"
| "is_transition_call e = False"

fun is_tracker_write :: "event \<Rightarrow> bool" where
  "is_tracker_write (CallTransitionIssue k tid res ok) = True"
| "is_tracker_write (CallAddComment k m ok) = True"
| "is_tracker_write e = False"

fun is_tracker_call :: "event \<Rightarrow> bool" where
  "is_tracker_call (CallTransitions k) = True"
| "is_tracker_call e = is_tracker_write e"

text \<open>
  The effect of the application step for an issue \<open>k\<close> fetched as \<open>iss\<close> with goal state
  \<open>g\<close>: the output grows, with at most one transition call; the transition log gains
  at most one row, the row of this issue, state and goal at the current clock reading;
  it gains the row exactly when the step ended normally after a transition call, and
  then everything is committed; a rejected transition call in a step that ended normally
  comes with the spoofing warning and a goal state among the values of the tag map; the
  other tables and the clock are as before.
\<close>

definition log_row :: "'j world \<Rightarrow> string \<Rightarrow> string \<Rightarrow> string \<Rightarrow> GerritJiraTrans" where
  "log_row w k from_state g =
     \<lparr>log_time = utc_clock w (clock_reads w), log_issue = k, from_status = from_state,
      to_status = g\<rparr>"

definition application_effect ::
  "(string \<times> string) list \<Rightarrow> string \<Rightarrow> jira_issue \<Rightarrow> string \<Rightarrow> 'j world \<Rightarrow> 'j world \<times> exn option \<Rightarrow> bool"
where
  "application_effect tm k iss g w res =
     (case res of (w', r) \<Rightarrow>
        \<exists>new rows.
          trace w' = trace w @ new \<and>
          gerrit_jira_log (view (sql w')) = gerrit_jira_log (view (sql w)) @ rows \<and>
          length (filter is_transition_call new) \<le> 1 \<and>
          (rows = [] \<or> rows = [log_row w k (status_name iss) g]) \<and>
          (rows \<noteq> [] \<longleftrightarrow> r = None \<and> filter is_transition_call new \<noteq> []) \<and>
          (\<forall>kk t res. CallTransitionIssue kk t res False \<in> set new \<and> r = None \<longrightarrow>
             WarnSpoofing \<in> set new \<and> g \<in> set (map snd tm)) \<and>
          (rows \<noteq> [] \<longrightarrow> stored (sql w') = view (sql w')) \<and>
          gerrit_jira_map (view (sql w')) = gerrit_jira_map (view (sql w)) \<and>
          poll_history (view (sql w')) = poll_history (view (sql w)) \<and>
          utc_clock w' = utc_clock w)"

text \<open>
  The project prefix of an issue, \<open>issue.key.split('-')[0]\<close>, and the three tests an
  issue has to pass before the tracker is asked for its transitions.
\<close>

definition project_of :: "jira_issue \<Rightarrow> string" where
  "project_of iss = takeWhile (\<lambda>x. x \<noteq> CHR ''-'') (key iss)"

definition guards_pass ::
  "(string \<rightharpoonup> (string \<rightharpoonup> string list)) \<Rightarrow> string \<Rightarrow> jira_issue \<Rightarrow> string \<Rightarrow> session \<Rightarrow> bool"
where
  "guards_pass nf k iss g s \<longleftrightarrow>
     CHR ''-'' \<in> set (key iss) \<and>
     is_nominal_transition (dict_get nf (project_of iss) Map.empty) (status_name iss) g \<and>
     count_issue k s \<le> 1"

text \<open>
  What a dry run may change: the tracker is as it was, the output gained no write call,
  the transition log and the poll history read as before, and what is stored of them is
  what was stored or what the session saw at the start.
\<close>

definition dry_run_frame :: "'j world \<Rightarrow> 'j world \<Rightarrow> bool" where
  "dry_run_frame w w' \<longleftrightarrow>
     jira w' = jira w \<and>
     (\<exists>new. trace w' = trace w @ new \<and> filter is_tracker_write new = []) \<and>
     gerrit_jira_log (view (sql w')) = gerrit_jira_log (view (sql w)) \<and>
     poll_history (view (sql w')) = poll_history (view (sql w)) \<and>
     (gerrit_jira_log (stored (sql w')) = gerrit_jira_log (stored (sql w)) \<or>
      gerrit_jira_log (stored (sql w')) = gerrit_jira_log (view (sql w))) \<and>
     (poll_history (stored (sql w')) = poll_history (stored (sql w)) \<or>
      poll_history (stored (sql w')) = poll_history (view (sql w)))"

text \<open>
  The time a poll reads from the clock, and the start of the window it computes from
  the poll history its session sees.
\<close>

definition poll_time :: "'j world \<Rightarrow> int" where
  "poll_time w = utc_clock w (clock_reads w)"

definition poll_start :: "'j world \<Rightarrow> int" where
  "poll_start w = fst (poll_window (poll_time w) (poll_history (view (sql w))))"

text \<open>
  Whether the \<open>while has_more_changes\<close> loop ends within the fuel: the review system
  fails, or one of the first \<open>fuel\<close> pages is empty or does not announce a further one.
  Only the answers of the review system matter, whatever the processing of a page does.
\<close>

fun pages_within :: "nat \<Rightarrow> gerrit_client \<Rightarrow> string \<Rightarrow> string \<Rightarrow> string \<Rightarrow> nat \<Rightarrow> bool" where
  "pages_within 0 gerrit project start_time end_time offset = False"
| "pages_within (Suc fuel) gerrit project start_time end_time offset =
     (case get_changes gerrit project start_time end_time offset of
        Inl e \<Rightarrow> True
      | Inr response \<Rightarrow>
          if response \<noteq> [] \<and>
             (case ci_more_changes (last response) of None \<Rightarrow> False | Some flag \<Rightarrow> flag)
          then pages_within fuel gerrit project start_time end_time (offset + length response)
          else True)"

section \<open>Test doubles for the examples\<close>

text \<open>
  A tracker double: its state maps an issue key to a status name, it offers the same
  transitions for every issue, and it accepts or rejects every transition as told;
  an accepted transition stores the transition's id as the new status. A review system
  double: one page holding all changes, and the commit message of each change.
\<close>

definition fake_jira :: "transition list \<Rightarrow> bool \<Rightarrow> ((string \<times> string) list) jira_client" where
  "fake_jira ts accepts =
     \<lparr>resolutions = (\<lambda>j. Inr [\<lparr>resolution_name = ''Done'', resolution_id = ''1''\<rparr>]),
      issue = (\<lambda>j k. case map_of j k of None \<Rightarrow> Inl JIRAError
                      | Some st \<Rightarrow> Inr \<lparr>key = k, status_name = st\<rparr>),
      transitions = (\<lambda>j iss. Inr ts),
      transition_issue = (\<lambda>j iss tid res.
         if accepts then Inr ((key iss, tid) # j) else Inl JIRAError),
      add_comment = (\<lambda>j iss message. Inr j)\<rparr>"

definition example_transitions :: "transition list" where
  "example_transitions =
     [\<lparr>transition_id = ''11'', transition_name = ''Open: In Review''\<rparr>,
      \<lparr>transition_id = ''21'', transition_name = ''Open -> Resolved''\<rparr>,
      \<lparr>transition_id = ''31'', transition_name = ''Start Progress''\<rparr>]"

definition fake_gerrit :: "changeinfo list \<Rightarrow> (string \<times> string) list \<Rightarrow> gerrit_client" where
  "fake_gerrit changes messages =
     \<lparr>get_changes = (\<lambda>project start_time end_time offset. Inr (drop offset changes)),
      get_commit = (\<lambda>change_id revision. Inr (map_of messages change_id))\<rparr>"

definition example_message :: string where
  "example_message =
     ''Fix the parser'' @ [CHR 0x0A, CHR 0x0A] @
     ''Resolves: A-1 , A-2'' @ [CHR 0x0A] @
     ''resolves: X-9'' @ [CHR 0x0A] @
     ''Closes:C-7'' @ [CHR 0x0D, CHR 0x0A] @
     ''Resolves:B-3'' @ [CHR 0x0A]"

text \<open>
  An empty database, a tracker with the one issue PROJ-1 in state Open, a change I42 by
  Ann in a given review status, a flow and a tag map.
\<close>

definition empty_tables :: tables where
  "empty_tables = \<lparr>gerrit_jira_map = [], gerrit_jira_log = [], poll_history = []\<rparr>"

definition example_world :: "(string \<times> string) list world" where
  "example_world =
     \<lparr>jira = [(''PROJ-1'', ''Open'')],
      sql = \<lparr>view = empty_tables, stored = empty_tables\<rparr>,
      trace = [],
      utc_clock = (\<lambda>n. 1000 + int n),
      clock_reads = 0\<rparr>"

definition example_change :: "string \<Rightarrow> changeinfo" where
  "example_change st =
     \<lparr>ci_change_id = Some ''I42'', ci_status = Some st, ci_current_revision = Some ''abc'',
      ci_owner = Some \<lparr>owner_name = Some ''Ann'', owner_email = Some ''ann@example.org''\<rparr>,
      ci_branch = Some ''master'', ci_more_changes = None\<rparr>"

definition example_flow :: "string \<rightharpoonup> (string \<rightharpoonup> string list)" where
  "example_flow = [''PROJ'' \<mapsto> [''Open'' \<mapsto> [''In Review'', ''Resolved''],
                                  ''In Review'' \<mapsto> [''Resolved'']]]"

definition example_tag_map :: "(string \<times> string) list" where
  "example_tag_map = [(''Closes'', ''Resolved''), (''Resolves'', ''Resolved'')]"

definition done_resolution :: resolution where
  "done_resolution = \<lparr>resolution_name = ''Done'', resolution_id = ''1''\<rparr>"

text \<open>
  Three runs of the loop body for the issue PROJ-1 of the change I42: a new change with
  a tracker that accepts, a merged change with a tracker that rejects, and a new change
  when the issue is already associated with the change I7.
\<close>

definition accepted_pair :: "(string \<times> string) list world \<times> exn option" where
  "accepted_pair =
     process_pair (fake_jira example_transitions True) False example_flow example_tag_map
       done_resolution (example_change ''NEW'') ''I42'' ''NEW'' (''PROJ-1'', ''Resolved'')
       example_world"

definition rejected_pair :: "(string \<times> string) list world \<times> exn option" where
  "rejected_pair =
     process_pair (fake_jira example_transitions False) False example_flow example_tag_map
       done_resolution (example_change ''MERGED'') ''I42'' ''MERGED'' (''PROJ-1'', ''Resolved'')
       example_world"

definition shared_world :: "(string \<times> string) list world" where
  "shared_world =
     example_world\<lparr>sql :=
       \<lparr>view = empty_tables\<lparr>gerrit_jira_map := [\<lparr>map_issue = ''PROJ-1'', map_changeid = ''I7''\<rparr>]\<rparr>,
        stored = empty_tables\<lparr>gerrit_jira_map := [\<lparr>map_issue = ''PROJ-1'', map_changeid = ''I7''\<rparr>]\<rparr>\<rparr>\<rparr>"

definition shared_pair :: "(string \<times> string) list world \<times> exn option" where
  "shared_pair =
     process_pair (fake_jira example_transitions True) False example_flow example_tag_map
       done_resolution (example_change ''NEW'') ''I42'' ''NEW'' (''PROJ-1'', ''Resolved'')
       shared_world"

text \<open>The same step for the already associated issue in a dry run.\<close>

definition dry_pair :: "(string \<times> string) list world \<times> exn option" where
  "dry_pair =
     process_pair (fake_jira example_transitions True) True example_flow example_tag_map
       done_resolution (example_change ''NEW'') ''I42'' ''NEW'' (''PROJ-1'', ''Resolved'')
       shared_world"

text \<open>
  Polls of a review system with two changes, the abandoned I7 and the new I42 whose
  message closes PROJ-1, and of one whose query fails, on a database that associates
  PROJ-1 with I7.
\<close>

definition abandoned_change :: changeinfo where
  "abandoned_change = (example_change ''ABANDONED'')\<lparr>ci_change_id := Some ''I7''\<rparr>"

definition example_gerrit :: gerrit_client where
  "example_gerrit =
     fake_gerrit [abandoned_change, example_change ''NEW''] [(''I42'', ''Closes: PROJ-1'')]"

definition failing_gerrit :: gerrit_client where
  "failing_gerrit =
     \<lparr>get_changes = (\<lambda>project start_time end_time offset. Inl (OtherError ''connection refused'')),
      get_commit = (\<lambda>change_id revision. Inl (OtherError ''connection refused''))\<rparr>"

definition example_poll ::
  "gerrit_client \<Rightarrow> bool \<Rightarrow> ((string \<times> string) list world \<times> exn option) option" where
  "example_poll gerrit dry_run =
     run_args (Suc 0) (\<lambda>t. []) gerrit (fake_jira example_transitions True) example_flow
       example_tag_map ''proj'' dry_run shared_world"

text \<open>
  The dry-run step for the abandoned change alone, and a poll of a merged change I42 whose
  message closes PROJ-1, with a tracker that rejects every transition.
\<close>

definition abandoned_step :: "(string \<times> string) list world \<times> exn option" where
  "abandoned_step =
     process_change example_gerrit (fake_jira example_transitions True) True example_flow
       example_tag_map done_resolution abandoned_change shared_world"

definition rejected_poll :: "((string \<times> string) list world \<times> exn option) option" where
  "rejected_poll =
     run_args (Suc 0) (\<lambda>t. [])
       (fake_gerrit [example_change ''MERGED''] [(''I42'', ''Closes: PROJ-1'')])
       (fake_jira example_transitions False) example_flow example_tag_map ''proj'' False
       example_world"

text \<open>A poll history: two successful polls, then a failed one.\<close>

definition example_history :: "PollHistory list" where
  "example_history =
     [\<lparr>period_start = 100, period_end = 200, status = 0\<rparr>,
      \<lparr>period_start = 200, period_end = 300, status = 0\<rparr>,
      \<lparr>period_start = 300, period_end = 400, status = - 1\<rparr>]"

text \<open>
  Polls at clock reading 1000 of a database that holds this history: the time format
  names the times 300 and 1000, and the review system answers the query for the window
  from 300 to 1000 with an empty page and refuses any other window; the second poll is
  of the review system whose query fails.
\<close>

definition history_world :: "(string \<times> string) list world" where
  "history_world =
     example_world\<lparr>sql :=
       \<lparr>view = empty_tables\<lparr>poll_history := example_history\<rparr>,
        stored = empty_tables\<lparr>poll_history := example_history\<rparr>\<rparr>\<rparr>"

definition window_strftime :: "int \<Rightarrow> string" where
  "window_strftime t = (if t = 300 then ''T300'' else if t = 1000 then ''T1000'' else ''other'')"

definition window_gerrit :: gerrit_client where
  "window_gerrit =
     \<lparr>get_changes = (\<lambda>project start_time end_time offset.
         if start_time = ''T300'' \<and> end_time = ''T1000'' then Inr []
         else Inl (OtherError ''unexpected window'')),
      get_commit = (\<lambda>change_id revision. Inr None)\<rparr>"

definition window_poll :: "((string \<times> string) list world \<times> exn option) option" where
  "window_poll =
     run_args (Suc 0) window_strftime window_gerrit (fake_jira example_transitions True)
       example_flow example_tag_map ''proj'' False history_world"

definition failed_history_poll :: "((string \<times> string) list world \<times> exn option) option" where
  "failed_history_poll =
     run_args (Suc 0) window_strftime failing_gerrit (fake_jira example_transitions True)
       example_flow example_tag_map ''proj'' False history_world"

text \<open>A parsed commit message and a tag map that tells Closes from Resolves.\<close>

definition example_meta :: message_meta where
  "example_meta = empty_meta\<lparr>Closes := [''PROJ-1''], Resolves := [''PROJ-2'', ''PROJ-3'']\<rparr>"

definition closing_tag_map :: "(string \<times> string) list" where
  "closing_tag_map = [(''Closes'', ''Closed''), (''Resolves'', ''Resolved'')]"

section \<open>Facts about the string methods\<close>

lemma ebind_simps [simp]: "ebind (Inl e) f = Inl e" "ebind (Inr x) f = f x"
  by (simp_all add: ebind_def)

lemma str_contains_char: "str_contains [c] s \<longleftrightarrow> c \<in> set s"
  by (induction s) auto

lemma split1_char_absent: "c \<notin> set s \<Longrightarrow> split1 [c] s = [s]"
  by (induction s) auto

lemma split1_char_present:
  "c \<in> set s \<Longrightarrow> split1 [c] s = [takeWhile (\<lambda>x. x \<noteq> c) s, tl (dropWhile (\<lambda>x. x \<noteq> c) s)]"
  by (induction s) auto

lemma split1_append_char: "c \<notin> set a \<Longrightarrow> split1 [c] (a @ c # b) = [a, b]"
  by (induction a) auto

lemma split1_length_found:
  "sep \<noteq> [] \<Longrightarrow> str_contains sep s \<Longrightarrow> length (split1 sep s) = 2"
  by (induction s) (auto split: list.splits)

lemma split1_arrow:
  "\<not> str_contains ''->'' a \<Longrightarrow> split1 ''->'' (a @ '' -> '' @ b) = [a @ '' '', '' '' @ b]"
proof (induction a)
  case Nil
  then show ?case by simp
next
  case (Cons c cs)
  then show ?case by (cases cs) auto
qed

lemma str_contains_arrow: "str_contains ''->'' (a @ '' -> '' @ b)"
  by (induction a) auto

lemma strip_leading_space: "strip (CHR '' '' # s) = strip s"
  by (simp add: strip_def isspace_def)

lemma set_map_filter: "set (List.map_filter f xs) = {y. \<exists>x\<in>set xs. f x = Some y}"
  by (induction xs) (auto simp: List.map_filter_simps split: option.splits)

section \<open>The transition finder\<close>

lemma transition_tstate_destination: "transition_tstate name = Inr (destination name)"
  by (simp add: transition_tstate_def destination_def py_index_def split1_length_found)

lemma transition_loop_result:
  "transition_loop target ts (tid, av) =
     Inr (case matching target ts of [] \<Rightarrow> tid | m # ms \<Rightarrow> Some (transition_id (last (m # ms))),
          av @ List.map_filter (\<lambda>t. destination (transition_name t)) ts)"
proof (induction ts arbitrary: tid av)
  case Nil
  then show ?case by (simp add: matching_def List.map_filter_simps)
next
  case (Cons t ts)
  show ?case
  proof (cases "destination (transition_name t)")
    case None
    then show ?thesis
      using Cons.IH [of tid av]
      by (simp add: transition_tstate_destination matching_def List.map_filter_simps)
  next
    case (Some s)
    then show ?thesis
      using Cons.IH [of "if s = target then Some (transition_id t) else tid" "av @ [s]"]
      by (auto simp: transition_tstate_destination matching_def List.map_filter_simps
               split: list.splits)
  qed
qed

lemma get_transition_to_result:
  "transitions jc j iss = Inr ts \<Longrightarrow>
   get_transition_to jc j iss target =
     Inr (case matching target ts of [] \<Rightarrow> None | m # ms \<Rightarrow> Some (transition_id (last (m # ms))),
          List.map_filter (\<lambda>t. destination (transition_name t)) ts)"
  by (simp add: get_transition_to_def transition_loop_result)

lemma destination_colon:
  "CHR '':'' \<notin> set a \<Longrightarrow> destination (a @ '': '' @ b) = Some (strip b)"
  using split1_append_char [of "CHR '':''" a "CHR '' '' # b"]
  by (simp add: destination_def str_contains_char strip_leading_space)

lemma destination_arrow:
  "CHR '':'' \<notin> set a \<Longrightarrow> CHR '':'' \<notin> set b \<Longrightarrow> \<not> str_contains ''->'' a \<Longrightarrow>
   destination (a @ '' -> '' @ b) = Some (strip b)"
  using split1_arrow [of a b] str_contains_arrow [of a b]
  by (simp add: destination_def str_contains_char strip_leading_space)

lemma matching_empty_iff:
  "matching target ts = [] \<longleftrightarrow>
   target \<notin> set (List.map_filter (\<lambda>t. destination (transition_name t)) ts)"
  by (auto simp: matching_def set_map_filter filter_empty_conv)

lemma last_matching:
  "matching target ts = m # ms \<Longrightarrow>
   last (m # ms) \<in> set ts \<and> destination (transition_name (last (m # ms))) = Some target"
proof -
  assume eq: "matching target ts = m # ms"
  have "last (m # ms) \<in> set (matching target ts)"
    unfolding eq by (rule last_in_set) simp
  then show ?thesis by (simp add: matching_def)
qed

text \<open>
  C10 (as the code has it). Given the transitions the tracker lists for an issue,
  get_transition_to returns the destination names of all transitions whose name has a
  colon or an arrow, in the order listed, and the id of the last listed transition whose
  destination is the target state: \<open>None\<close> exactly when the target is not among the
  destinations. The destination is the trimmed text after the first colon, else after
  the first arrow: the name \<open>from: to\<close> gives the trimmed \<open>to\<close> when \<open>from\<close> has no
  colon, and the name \<open>from -> to\<close> gives the same when neither state name has a colon
  and \<open>from\<close> has no arrow.
\<close>

theorem get_transition_to_destinations:
  "(transitions jc j iss = Inr ts \<longrightarrow>
      (\<exists>tid available.
         get_transition_to jc j iss target = Inr (tid, available) \<and>
         available = List.map_filter (\<lambda>t. destination (transition_name t)) ts \<and>
         (tid = None \<longleftrightarrow> target \<notin> set available) \<and>
         (\<forall>i. tid = Some i \<longrightarrow>
            (\<exists>t \<in> set ts. transition_id t = i \<and> destination (transition_name t) = Some target) \<and>
            i = transition_id (last (matching target ts))))) \<and>
   (CHR '':'' \<notin> set a \<longrightarrow> destination (a @ '': '' @ b) = Some (strip b)) \<and>
   (CHR '':'' \<notin> set a \<and> CHR '':'' \<notin> set b \<and> \<not> str_contains ''->'' a \<longrightarrow>
      destination (a @ '' -> '' @ b) = Some (strip b))"
proof (intro conjI impI)
  assume ts: "transitions jc j iss = Inr ts"
  show "\<exists>tid available.
         get_transition_to jc j iss target = Inr (tid, available) \<and>
         available = List.map_filter (\<lambda>t. destination (transition_name t)) ts \<and>
         (tid = None \<longleftrightarrow> target \<notin> set available) \<and>
         (\<forall>i. tid = Some i \<longrightarrow>
            (\<exists>t \<in> set ts. transition_id t = i \<and> destination (transition_name t) = Some target) \<and>
            i = transition_id (last (matching target ts)))"
  proof (cases "matching target ts")
    case Nil
    then show ?thesis
      using get_transition_to_result [OF ts, of target] matching_empty_iff [of target ts]
      by simp
  next
    case (Cons m ms)
    then show ?thesis
      using get_transition_to_result [OF ts, of target] matching_empty_iff [of target ts]
        last_matching [OF Cons]
      by auto
  qed
next
  assume "CHR '':'' \<notin> set a"
  then show "destination (a @ '': '' @ b) = Some (strip b)"
    using destination_colon [of a b] by simp
next
  assume "CHR '':'' \<notin> set a \<and> CHR '':'' \<notin> set b \<and> \<not> str_contains ''->'' a"
  then show "destination (a @ '' -> '' @ b) = Some (strip b)"
    using destination_arrow [of a b] by simp
qed

theorem get_transition_to_destinations_witness:
  "get_transition_to (fake_jira example_transitions True) []
      \<lparr>key = ''PROJ-1'', status_name = ''Open''\<rparr> ''Resolved'' =
     Inr (Some ''21'', [''In Review'', ''Resolved'']) \<and>
   destination ''Open: In Review'' = Some ''In Review'' \<and>
   destination ''Open -> In Review'' = Some ''In Review''"
  using get_transition_to_destinations [of "fake_jira example_transitions True" "[]"
     "\<lparr>key = ''PROJ-1'', status_name = ''Open''\<rparr>" example_transitions "''Resolved''"
     "''Open''" "''In Review''"]
  by (simp add: fake_jira_def example_transitions_def destination_def matching_def strip_def
      isspace_def List.map_filter_simps get_transition_to_def transition_tstate_def py_index_def)

text \<open>
  The claim C10 as stated fails for a state name with a colon: for the states Open and
  'Closed: Duplicate' the name in the colon format gives the destination
  'Closed: Duplicate', the name in the arrow format gives 'Duplicate', and the finder
  does not find the transition to 'Closed: Duplicate' that the tracker lists.
\<close>

theorem colon_in_state_name:
  "transition_tstate (''Open'' @ '': '' @ ''Closed: Duplicate'') =
     Inr (Some ''Closed: Duplicate'') \<and>
   transition_tstate (''Open'' @ '' -> '' @ ''Closed: Duplicate'') = Inr (Some ''Duplicate'') \<and>
   get_transition_to
     (fake_jira [\<lparr>transition_id = ''41'', transition_name = ''Open -> Closed: Duplicate''\<rparr>] True)
     [] \<lparr>key = ''PROJ-1'', status_name = ''Open''\<rparr> ''Closed: Duplicate'' =
     Inr (None, [''Duplicate''])"
  by (simp add: get_transition_to_def transition_tstate_def py_index_def strip_def isspace_def
      fake_jira_def)

section \<open>The tag extractor\<close>

lemma meta_line_no_colon: "CHR '':'' \<notin> set line \<Longrightarrow> meta_line line r = r"
  by (simp add: meta_line_def split1_char_absent)

lemma meta_line_colon:
  "CHR '':'' \<in> set line \<Longrightarrow>
   meta_line line r =
     (let k = line_key line; v = line_value line in
      if k = ''Feature-Branch'' then r\<lparr>Feature_Branch := Some (strip v)\<rparr>
      else if k = ''Base-Branch'' then r\<lparr>Base_Branch := Some (strip v)\<rparr>
      else if k = ''Relative-To-Branch'' then r\<lparr>Relative_To_Branch := Some (strip v)\<rparr>
      else if k = ''ChangeId'' then r\<lparr>ChangeId := Some (strip v)\<rparr>
      else if k = ''Closes'' then
        r\<lparr>Closes := Closes r @ map strip (split_on CHR '','' (strip v))\<rparr>
      else if k = ''Resolves'' then
        r\<lparr>Resolves := Resolves r @ map strip (split_on CHR '','' (strip v))\<rparr>
      else r)"
  by (simp add: meta_line_def split1_char_present line_key_def line_value_def Let_def)

lemma meta_line_unrecognised: "line_key line \<notin> set recognised_keys \<Longrightarrow> meta_line line r = r"
  by (cases "CHR '':'' \<in> set line")
     (simp_all add: meta_line_no_colon meta_line_colon recognised_keys_def Let_def)

lemma Closes_meta_line: "Closes (meta_line line r) = Closes r @ tag_entries ''Closes'' line"
  by (cases "CHR '':'' \<in> set line")
     (simp_all add: meta_line_no_colon meta_line_colon tag_entries_def Let_def)

lemma Resolves_meta_line: "Resolves (meta_line line r) = Resolves r @ tag_entries ''Resolves'' line"
  by (cases "CHR '':'' \<in> set line")
     (simp_all add: meta_line_no_colon meta_line_colon tag_entries_def Let_def)

lemma Closes_fold:
  "Closes (fold meta_line ls r) = Closes r @ concat (map (tag_entries ''Closes'') ls)"
  by (induction ls arbitrary: r) (simp_all add: Closes_meta_line)

lemma Resolves_fold:
  "Resolves (fold meta_line ls r) = Resolves r @ concat (map (tag_entries ''Resolves'') ls)"
  by (induction ls arbitrary: r) (simp_all add: Resolves_meta_line)

text \<open>
  C9. The 'Closes' list of get_message_meta is, line after line of the commit message,
  what the lines with the key 'Closes' contribute, and likewise for 'Resolves': a line
  is cut at its first colon, the key is compared as it stands (case-sensitively, without
  trimming), the value is trimmed and cut at its commas, each entry is trimmed, and the
  entries of a later line follow those of an earlier one. A line without a colon, or
  with a key that is not recognised, leaves the result as it was.
\<close>

theorem get_message_meta_tags:
  "(get_commit gerrit change_id revision = Inr (Some message) \<longrightarrow>
      (\<exists>meta. get_message_meta gerrit change_id revision = Inr meta \<and>
         Closes meta = concat (map (tag_entries ''Closes'') (splitlines message)) \<and>
         Resolves meta = concat (map (tag_entries ''Resolves'') (splitlines message)))) \<and>
   (CHR '':'' \<in> set line \<longrightarrow> split1 '':'' line = [line_key line, line_value line]) \<and>
   (CHR '':'' \<notin> set line \<longrightarrow> meta_line line result = result) \<and>
   (line_key line \<notin> set recognised_keys \<longrightarrow> meta_line line result = result)"
  by (simp add: get_message_meta_def parse_message_def Closes_fold Resolves_fold empty_meta_def
      split1_char_present line_key_def line_value_def meta_line_no_colon
      meta_line_unrecognised [unfolded line_key_def])


lemma example_lines:
  "splitlines example_message =
     [''Fix the parser'', [], ''Resolves: A-1 , A-2'', ''resolves: X-9'', ''Closes:C-7'',
      ''Resolves:B-3'']"
  by (simp add: example_message_def splitlines_def is_linebreak_def)

theorem get_message_meta_tags_witness:
  "(\<exists>meta. get_message_meta (fake_gerrit [] [(''I42'', example_message)]) ''I42'' ''abc'' = Inr meta \<and>
      Closes meta = [''C-7''] \<and> Resolves meta = [''A-1'', ''A-2'', ''B-3'']) \<and>
   split1 '':'' ''Resolves: A-1 , A-2'' = [''Resolves'', '' A-1 , A-2''] \<and>
   meta_line ''Fix the parser'' empty_meta = empty_meta \<and>
   meta_line ''resolves: X-9'' empty_meta = empty_meta"
proof -
  let ?g = "fake_gerrit [] [(''I42'', example_message)]"
  have c: "get_commit ?g ''I42'' ''abc'' = Inr (Some example_message)"
    by (simp add: fake_gerrit_def)
  have closes: "concat (map (tag_entries ''Closes'') (splitlines example_message)) = [''C-7'']"
    by (simp add: example_lines tag_entries_def line_key_def line_value_def strip_def isspace_def)
  have resolves: "concat (map (tag_entries ''Resolves'') (splitlines example_message)) =
      [''A-1'', ''A-2'', ''B-3'']"
    by (simp add: example_lines tag_entries_def line_key_def line_value_def strip_def isspace_def)
  have 1: "\<exists>meta. get_message_meta ?g ''I42'' ''abc'' = Inr meta \<and>
      Closes meta = [''C-7''] \<and> Resolves meta = [''A-1'', ''A-2'', ''B-3'']"
    using get_message_meta_tags [of ?g "''I42''" "''abc''" example_message "[]" empty_meta] c
    by (simp only: closes resolves)
  have 2: "split1 '':'' ''Resolves: A-1 , A-2'' = [''Resolves'', '' A-1 , A-2'']"
    using get_message_meta_tags [of ?g "''I42''" "''abc''" example_message
        "''Resolves: A-1 , A-2''" empty_meta]
    by (simp add: line_key_def line_value_def)
  have 3: "meta_line ''Fix the parser'' empty_meta = empty_meta"
    using get_message_meta_tags [of ?g "''I42''" "''abc''" example_message
        "''Fix the parser''" empty_meta]
    by simp
  have 4: "meta_line ''resolves: X-9'' empty_meta = empty_meta"
    using get_message_meta_tags [of ?g "''I42''" "''abc''" example_message
        "''resolves: X-9''" empty_meta]
    by (simp add: line_key_def recognised_keys_def)
  from 1 2 3 4 show ?thesis by blast
qed


section \<open>One issue of one change\<close>

lemma then_do_simps [simp]:
  "then_do (s, None) f = f s" "then_do (s, Some e) f = (s, Some e)"
  by (simp_all add: then_do_def)

lemma emit_fields [simp]:
  "trace (emit e w) = trace w @ [e]" "jira (emit e w) = jira w" "sql (emit e w) = sql w"
  "utc_clock (emit e w) = utc_clock w" "clock_reads (emit e w) = clock_reads w"
  by (simp_all add: emit_def)

lemma call_transition_issue_result:
  "call_transition_issue jc iss tid res w = (w', r) \<Longrightarrow>
   trace w' = trace w @ [CallTransitionIssue (key iss) tid res (r = None)] \<and> sql w' = sql w \<and>
   utc_clock w' = utc_clock w \<and> clock_reads w' = clock_reads w"
  by (auto simp: call_transition_issue_def split: sum.splits)

lemma call_add_comment_result:
  "call_add_comment jc iss m w = (w', r) \<Longrightarrow>
   trace w' = trace w @ [CallAddComment (key iss) m (r = None)] \<and> sql w' = sql w \<and>
   utc_clock w' = utc_clock w \<and> clock_reads w' = clock_reads w"
  by (auto simp: call_add_comment_def split: sum.splits)

lemma log_transition_result:
  "log_transition k from_state g w = (w', r) \<Longrightarrow>
   r = None \<and> trace w' = trace w \<and> jira w' = jira w \<and>
   view (sql w') = (view (sql w))\<lparr>gerrit_jira_log := gerrit_jira_log (view (sql w)) @
      [\<lparr>log_time = utc_clock w (clock_reads w), log_issue = k, from_status = from_state,
        to_status = g\<rparr>]\<rparr> \<and>
   stored (sql w') = view (sql w') \<and> utc_clock w' = utc_clock w"
  by (auto simp: log_transition_def utcnow_def commit_def add_GerritJiraTrans_def)

text \<open>The transition call followed by the comment call.\<close>

lemma calls_result:
  "then_do (call_transition_issue jc iss tid res w) (call_add_comment jc iss m) = (w', r) \<Longrightarrow>
   sql w' = sql w \<and> utc_clock w' = utc_clock w \<and> clock_reads w' = clock_reads w \<and>
   (\<exists>ok rest. trace w' = trace w @ CallTransitionIssue (key iss) tid res ok # rest \<and>
      filter is_transition_call rest = [] \<and>
      (\<forall>k' t' res' ok'. CallTransitionIssue k' t' res' ok' \<notin> set rest) \<and> (r = None \<longrightarrow> ok))"
  apply (cases "call_transition_issue jc iss tid res w")
  subgoal for w1 r1
    apply (cases r1)
    apply (auto dest!: call_transition_issue_result call_add_comment_result)
    done
  done


lemma apply_transition_effect:
  "application_effect tm k iss g w (apply_transition jc tm rt ci k iss g tid w)"
proof (cases "make_jira_message ci g")
  case (Inl e)
  then show ?thesis by (simp add: apply_transition_def application_effect_def)
next
  case (Inr m)
  show ?thesis
  proof (cases "g \<in> set (map snd tm)")
    case True
    obtain w1 r1 where c: "then_do (call_transition_issue jc iss tid (Some (resolution_id rt)) w)
        (call_add_comment jc iss m) = (w1, r1)" by force
    note cr = calls_result [OF c]
    show ?thesis
    proof (cases r1)
      case None
      obtain w2 r2 where l: "log_transition k (status_name iss) g w1 = (w2, r2)" by force
      from log_transition_result [OF l] cr None True Inr c l show ?thesis
        by (auto simp: apply_transition_def application_effect_def log_row_def)
    next
      case (Some e)
      show ?thesis
      proof (cases "e = JIRAError")
        case True
        obtain w2 r2 where l: "log_transition k (status_name iss) g (emit WarnSpoofing w1) = (w2, r2)" by force
        from log_transition_result [OF l] cr Some True \<open>g \<in> set (map snd tm)\<close> Inr c l show ?thesis
          by (auto simp: apply_transition_def application_effect_def log_row_def)
      next
        case False
        with cr Some \<open>g \<in> set (map snd tm)\<close> Inr c show ?thesis
          by (auto simp: apply_transition_def application_effect_def)
      qed
    qed
  next
    case False
    obtain w1 r1 where c: "then_do (call_transition_issue jc iss tid None w)
        (call_add_comment jc iss m) = (w1, r1)" by force
    note cr = calls_result [OF c]
    show ?thesis
    proof (cases r1)
      case None
      obtain w2 r2 where l: "log_transition k (status_name iss) g w1 = (w2, r2)" by force
      from log_transition_result [OF l] cr None False Inr c l show ?thesis
        by (auto simp: apply_transition_def application_effect_def log_row_def)
    next
      case (Some e)
      with cr False Inr c show ?thesis
        by (auto simp: apply_transition_def application_effect_def)
    qed
  qed
qed


lemma GerritJira_surj: "\<lparr>map_issue = map_issue (x::GerritJira), map_changeid = map_changeid x\<rparr> = x"
  by (cases x) simp

lemma count_pair_zero_iff:
  "count_pair k c s = 0 \<longleftrightarrow> \<lparr>map_issue = k, map_changeid = c\<rparr> \<notin> set (gerrit_jira_map (view s))"
  by (auto simp: count_pair_def filter_empty_conv GerritJira_surj)

lemma count_issue_pos:
  "row \<in> set (gerrit_jira_map (view s)) \<Longrightarrow> map_issue row = k \<Longrightarrow> 1 \<le> count_issue k s"
proof -
  assume "row \<in> set (gerrit_jira_map (view s))" "map_issue row = k"
  then have "filter (\<lambda>r. map_issue r = k) (gerrit_jira_map (view s)) \<noteq> []"
    by (auto simp: filter_empty_conv)
  then show ?thesis
    by (simp add: count_issue_def Suc_le_eq)
qed

lemma upsert_association_result:
  "upsert_association k c s =
     Inr (if \<lparr>map_issue = k, map_changeid = c\<rparr> \<in> set (gerrit_jira_map (view s)) then s
          else commit (s\<lparr>view := (view s)\<lparr>gerrit_jira_map :=
                 gerrit_jira_map (view s) @ [\<lparr>map_issue = k, map_changeid = c\<rparr>]\<rparr>\<rparr>))"
  by (simp add: upsert_association_def count_pair_zero_iff add_GerritJira_def)

lemma upsert_association_tables:
  "upsert_association k c s = Inr s' \<Longrightarrow>
   gerrit_jira_log (view s') = gerrit_jira_log (view s) \<and>
   poll_history (view s') = poll_history (view s) \<and>
   \<lparr>map_issue = k, map_changeid = c\<rparr> \<in> set (gerrit_jira_map (view s'))"
  by (auto simp: upsert_association_result commit_def split: if_splits)

lemma upsert_association_count:
  "upsert_association k c s = Inr s' \<Longrightarrow> 1 \<le> count_issue k s'"
  using upsert_association_tables [of k c s s']
    count_issue_pos [of "\<lparr>map_issue = k, map_changeid = c\<rparr>" s' k]
  by simp

lemma application_effect_after_emit:
  assumes "application_effect tm k iss g (emit e w) res" and "\<not> is_transition_call e"
  shows "application_effect tm k iss g w res"
proof -
  obtain w' r where res: "res = (w', r)" by (cases res)
  from assms(1) have "\<exists>new rows.
       trace w' = trace (emit e w) @ new \<and>
       gerrit_jira_log (view (sql w')) = gerrit_jira_log (view (sql (emit e w))) @ rows \<and>
       length (filter is_transition_call new) \<le> 1 \<and>
       (rows = [] \<or> rows = [log_row (emit e w) k (status_name iss) g]) \<and>
       (rows \<noteq> [] \<longleftrightarrow> r = None \<and> filter is_transition_call new \<noteq> []) \<and>
       (\<forall>kk t res. CallTransitionIssue kk t res False \<in> set new \<and> r = None \<longrightarrow>
             WarnSpoofing \<in> set new \<and> g \<in> set (map snd tm)) \<and>
       (rows \<noteq> [] \<longrightarrow> stored (sql w') = view (sql w')) \<and>
       gerrit_jira_map (view (sql w')) = gerrit_jira_map (view (sql (emit e w))) \<and>
       poll_history (view (sql w')) = poll_history (view (sql (emit e w))) \<and>
       utc_clock w' = utc_clock (emit e w)"
    unfolding application_effect_def res by (simp only: prod.case)
  then obtain new rows where
    h: "trace w' = trace (emit e w) @ new"
       "gerrit_jira_log (view (sql w')) = gerrit_jira_log (view (sql (emit e w))) @ rows"
       "length (filter is_transition_call new) \<le> 1"
       "rows = [] \<or> rows = [log_row (emit e w) k (status_name iss) g]"
       "rows \<noteq> [] \<longleftrightarrow> r = None \<and> filter is_transition_call new \<noteq> []"
       "\<forall>kk t res. CallTransitionIssue kk t res False \<in> set new \<and> r = None \<longrightarrow>
             WarnSpoofing \<in> set new \<and> g \<in> set (map snd tm)"
       "rows \<noteq> [] \<longrightarrow> stored (sql w') = view (sql w')"
       "gerrit_jira_map (view (sql w')) = gerrit_jira_map (view (sql (emit e w)))"
       "poll_history (view (sql w')) = poll_history (view (sql (emit e w)))"
       "utc_clock w' = utc_clock (emit e w)"
    by blast
  have ne: "\<And>kk t res. e \<noteq> CallTransitionIssue kk t res False"
    using assms(2) by auto
  show ?thesis
    unfolding application_effect_def res
    apply (simp only: prod.case)
    apply (rule exI [of _ "e # new"])
    apply (rule exI [of _ rows])
    using h assms(2) ne
    apply (simp add: log_row_def)
    apply blast
    done
qed

lemma application_effect_skip:
  "\<not> is_transition_call e \<Longrightarrow> application_effect tm k iss g w (emit e w, None)"
  by (cases e) (simp_all add: application_effect_def)

lemma application_effect_raise:
  "application_effect tm k iss g w (w, Some e)"
  by (simp add: application_effect_def)

lemma advance_issue_effect:
  "application_effect tm k iss g w (advance_issue jc dry nf tm rt ci k iss g w)"
proof -
  have ae: "application_effect tm k iss g w
     (apply_transition jc tm rt ci k iss g tid (emit (CallTransitions (key iss)) w))" for tid
    by (rule application_effect_after_emit [OF apply_transition_effect]) simp
  have two: "application_effect tm k iss g w (emit e2 (emit (CallTransitions (key iss)) w), None)"
    if "\<not> is_transition_call e2" for e2
    by (rule application_effect_after_emit [OF application_effect_skip [OF that]]) simp
  have one: "application_effect tm k iss g w (emit (CallTransitions (key iss)) w, Some e)" for e
    by (rule application_effect_after_emit [OF application_effect_raise]) simp
  show ?thesis
    by (simp add: advance_issue_def ae one two application_effect_skip application_effect_raise
        split: sum.splits option.splits)
qed


lemma split_on_first: "py_index (split_on c s) 0 = Inr (takeWhile (\<lambda>x. x \<noteq> c) s)"
proof -
  have "\<exists>rest. split_on c s = takeWhile (\<lambda>x. x \<noteq> c) s # rest"
    by (induction s) auto
  then show ?thesis by (auto simp: py_index_def)
qed

lemma advance_issue_blocked:
  "\<not> guards_pass nf k iss g (sql w) \<Longrightarrow>
   \<exists>e. advance_issue jc dry nf tm rt ci k iss g w = (emit e w, None) \<and> \<not> is_tracker_call e"
  by (auto simp: advance_issue_def guards_pass_def split_on_first project_of_def)

lemma advance_issue_passed:
  "guards_pass nf k iss g (sql w) \<Longrightarrow>
   advance_issue jc dry nf tm rt ci k iss g w =
     (case get_transition_to jc (jira w) iss g of
        Inl e \<Rightarrow> (emit (CallTransitions (key iss)) w, Some e)
      | Inr (None, available_states) \<Rightarrow>
          (emit (InfoMissingTransition available_states) (emit (CallTransitions (key iss)) w), None)
      | Inr (Some tid, available_states) \<Rightarrow>
          if dry then (emit InfoDryRun (emit (CallTransitions (key iss)) w), None)
          else apply_transition jc tm rt ci k iss g tid (emit (CallTransitions (key iss)) w))"
  by (auto simp: advance_issue_def guards_pass_def split_on_first project_of_def)

lemma new_events_append [simp]: "trace w' = trace w @ new \<Longrightarrow> new_events w w' = new"
  by (simp add: new_events_def)

lemma application_effect_trace:
  "application_effect tm k iss g w (w', r) \<Longrightarrow> \<exists>new. trace w' = trace w @ new"
  by (auto simp: application_effect_def)

lemma advance_issue_lookup_first:
  assumes "guards_pass nf k iss g (sql w)"
    and "advance_issue jc dry nf tm rt ci k iss g w = (w', r)"
  shows "\<exists>rest. trace w' = trace w @ CallTransitions (key iss) # rest"
proof -
  have ap: "\<exists>rest. trace (fst (apply_transition jc tm rt ci k iss g tid
        (emit (CallTransitions (key iss)) w))) = trace w @ CallTransitions (key iss) # rest" for tid
    using apply_transition_effect [of tm k iss g "emit (CallTransitions (key iss)) w" jc rt ci tid]
    by (cases "apply_transition jc tm rt ci k iss g tid (emit (CallTransitions (key iss)) w)")
       (auto simp: application_effect_def)
  show ?thesis
    using assms(2) ap unfolding advance_issue_passed [OF assms(1)]
    by (auto split: sum.splits option.splits if_splits) (metis fst_conv)
qed

lemma advance_issue_calls_guarded:
  assumes "advance_issue jc dry nf tm rt ci k iss g w = (w', r)"
    and "e \<in> set (new_events w w')" and "is_tracker_call e"
  shows "guards_pass nf k iss g (sql w)"
proof (rule ccontr)
  assume "\<not> guards_pass nf k iss g (sql w)"
  from advance_issue_blocked [OF this, of jc dry tm rt ci] assms show False
    by auto
qed

lemma advance_issue_dry_run:
  "advance_issue jc True nf tm rt ci k iss g w = (w', r) \<Longrightarrow>
   jira w' = jira w \<and> sql w' = sql w \<and> utc_clock w' = utc_clock w \<and>
   clock_reads w' = clock_reads w \<and>
   (\<exists>new. trace w' = trace w @ new \<and> filter is_tracker_write new = [])"
  by (auto simp: advance_issue_def split: sum.splits option.splits if_splits)

lemma process_pair_cases:
  "process_pair jc dry nf tm rt ci cid st (k, resolution) w =
     (case issue jc (jira w) k of
        Inl e \<Rightarrow> if e = JIRAError then (emit (WarnNotAnIssue k) w, None) else (w, Some e)
      | Inr iss \<Rightarrow>
          advance_issue jc dry nf tm rt ci k iss (goal_state_of st resolution)
            (emit (InfoGoal k (status_name iss) (goal_state_of st resolution))
               (w\<lparr>sql := (if \<lparr>map_issue = k, map_changeid = cid\<rparr> \<in> set (gerrit_jira_map (view (sql w)))
                   then sql w
                   else commit ((sql w)\<lparr>view := (view (sql w))\<lparr>gerrit_jira_map :=
                      gerrit_jira_map (view (sql w)) @ [\<lparr>map_issue = k, map_changeid = cid\<rparr>]\<rparr>\<rparr>))\<rparr>)))"
  by (simp add: process_pair_def upsert_association_result split: sum.splits)


lemma process_pair_found:
  assumes "process_pair jc dry nf tm rt ci cid st (k, resolution) w = (w', r)"
    and "issue jc (jira w) k = Inr iss"
  shows "\<exists>s'. upsert_association k cid (sql w) = Inr s' \<and>
     advance_issue jc dry nf tm rt ci k iss (goal_state_of st resolution)
       (emit (InfoGoal k (status_name iss) (goal_state_of st resolution)) (w\<lparr>sql := s'\<rparr>)) = (w', r) \<and>
     application_effect tm k iss (goal_state_of st resolution) (w\<lparr>sql := s'\<rparr>) (w', r)"
proof -
  obtain s' where s': "upsert_association k cid (sql w) = Inr s'"
    by (simp add: upsert_association_result)
  let ?g = "goal_state_of st resolution"
  let ?w1 = "emit (InfoGoal k (status_name iss) ?g) (w\<lparr>sql := s'\<rparr>)"
  have adv: "advance_issue jc dry nf tm rt ci k iss ?g ?w1 = (w', r)"
    using assms s' by (simp add: process_pair_def)
  have "application_effect tm k iss ?g ?w1 (w', r)"
    using advance_issue_effect [of tm k iss ?g ?w1 jc dry nf rt ci] adv by simp
  then have "application_effect tm k iss ?g (w\<lparr>sql := s'\<rparr>) (w', r)"
    by (rule application_effect_after_emit) simp
  with s' adv show ?thesis by blast
qed

lemma process_pair_not_found:
  assumes "process_pair jc dry nf tm rt ci cid st (k, resolution) w = (w', r)"
    and "issue jc (jira w) k = Inl e"
  shows "(e = JIRAError \<and> w' = emit (WarnNotAnIssue k) w \<and> r = None) \<or>
         (e \<noteq> JIRAError \<and> w' = w \<and> r = Some e)"
  using assms by (auto simp: process_pair_def split: if_splits)

lemmas run_defs = process_pair_def fake_jira_def upsert_association_def count_pair_def
  add_GerritJira_def commit_def goal_state_of_def advance_issue_def py_index_def
  is_nominal_transition_def dict_get_def count_issue_def get_transition_to_def
  transition_tstate_def strip_def isspace_def apply_transition_def make_jira_message_def
  call_transition_issue_def call_add_comment_def then_do_def log_transition_def utcnow_def
  add_GerritJiraTrans_def emit_def example_world_def example_change_def example_flow_def
  example_tag_map_def done_resolution_def example_transitions_def empty_tables_def

lemmas poll_defs = example_poll_def example_gerrit_def abandoned_change_def
  fake_gerrit_def shared_world_def run_args_def poll_window_def last_success_def one_week_def
  update_issues_from_review_def find_resolve_to_def process_change_def get_message_meta_def
  parse_message_def splitlines_def is_linebreak_def meta_line_def empty_meta_def
  change_resolutions_def delete_changeid_def add_PollHistory_def

lemma application_effectD:
  "application_effect tm k iss g w (w', r) \<Longrightarrow>
   \<exists>new rows.
     trace w' = trace w @ new \<and>
     gerrit_jira_log (view (sql w')) = gerrit_jira_log (view (sql w)) @ rows \<and>
     length (filter is_transition_call new) \<le> 1 \<and>
     (rows = [] \<or> rows = [log_row w k (status_name iss) g]) \<and>
     (rows \<noteq> [] \<longleftrightarrow> r = None \<and> filter is_transition_call new \<noteq> []) \<and>
     (\<forall>kk t res. CallTransitionIssue kk t res False \<in> set new \<and> r = None \<longrightarrow>
        WarnSpoofing \<in> set new \<and> g \<in> set (map snd tm)) \<and>
     (rows \<noteq> [] \<longrightarrow> stored (sql w') = view (sql w')) \<and>
     gerrit_jira_map (view (sql w')) = gerrit_jira_map (view (sql w)) \<and>
     poll_history (view (sql w')) = poll_history (view (sql w)) \<and>
     utc_clock w' = utc_clock w"
  by (simp only: application_effect_def prod.case)

lemma process_pair_trace:
  assumes "process_pair jc dry nf tm rt ci cid st (k, resolution) w = (w', r)"
  shows "\<exists>new. trace w' = trace w @ new"
proof (cases "issue jc (jira w) k")
  case (Inl e)
  from process_pair_not_found [OF assms Inl] show ?thesis by auto
next
  case (Inr iss)
  from process_pair_found [OF assms Inr] show ?thesis
    by (auto simp: application_effect_def)
qed

text \<open>
  One execution of the loop body, for one entry of the list \<open>resolutions\<close>, appends at
  most one row to the transition log and makes at most one transition call. A row is
  appended exactly when a transition call was made and the body ended without raising;
  the row holds the clock reading, the issue key, the state the issue was fetched in and
  the goal state, and is committed at once. A body that ends normally after a transition
  call the tracker rejected has logged the spoofing warning, and its goal state is a
  value of the tag map.
\<close>

lemma process_pair_log_rows:
  assumes "process_pair jc dry nf tm rt ci cid st (k, resolution) w = (w', r)"
  shows "\<exists>rows.
     gerrit_jira_log (view (sql w')) = gerrit_jira_log (view (sql w)) @ rows \<and>
     length rows \<le> 1 \<and>
     length (filter is_transition_call (new_events w w')) \<le> 1 \<and>
     (rows \<noteq> [] \<longleftrightarrow> r = None \<and> filter is_transition_call (new_events w w') \<noteq> []) \<and>
     (rows \<noteq> [] \<longrightarrow>
        (\<exists>iss. issue jc (jira w) k = Inr iss \<and>
           rows = [\<lparr>log_time = utc_clock w (clock_reads w), log_issue = k,
                    from_status = status_name iss, to_status = goal_state_of st resolution\<rparr>]) \<and>
        stored (sql w') = view (sql w')) \<and>
     (\<forall>kk t res. CallTransitionIssue kk t res False \<in> set (new_events w w') \<and> r = None \<longrightarrow>
        WarnSpoofing \<in> set (new_events w w') \<and> goal_state_of st resolution \<in> set (map snd tm))"
proof (cases "issue jc (jira w) k")
  case (Inl e)
  from process_pair_not_found [OF assms Inl] show ?thesis
    by (auto simp: new_events_def)
next
  case (Inr iss)
  from process_pair_found [OF assms Inr] obtain s' where
    up: "upsert_association k cid (sql w) = Inr s'" and
    ae: "application_effect tm k iss (goal_state_of st resolution) (w\<lparr>sql := s'\<rparr>) (w', r)"
    by blast
  from application_effectD [OF ae] obtain new rows where
    h: "trace w' = trace (w\<lparr>sql := s'\<rparr>) @ new"
       "gerrit_jira_log (view (sql w')) = gerrit_jira_log (view (sql (w\<lparr>sql := s'\<rparr>))) @ rows"
       "length (filter is_transition_call new) \<le> 1"
       "rows = [] \<or> rows = [log_row (w\<lparr>sql := s'\<rparr>) k (status_name iss) (goal_state_of st resolution)]"
       "rows \<noteq> [] \<longleftrightarrow> r = None \<and> filter is_transition_call new \<noteq> []"
       "\<forall>kk t res. CallTransitionIssue kk t res False \<in> set new \<and> r = None \<longrightarrow>
             WarnSpoofing \<in> set new \<and> goal_state_of st resolution \<in> set (map snd tm)"
       "rows \<noteq> [] \<longrightarrow> stored (sql w') = view (sql w')"
    by blast
  have ne: "new_events w w' = new" using h(1) by simp
  have lg: "gerrit_jira_log (view s') = gerrit_jira_log (view (sql w))"
    using upsert_association_tables [OF up] by simp
  show ?thesis
    apply (rule exI [of _ rows])
    unfolding ne
    using h lg Inr
    apply (simp add: log_row_def)
    apply (elim disjE)
     apply simp_all
    done
qed


text \<open>
  C4. The transition log is to hold a row for a successfully applied transition only,
  and none for a transition the tracker rejected. The code departs from this on the
  resolution path. For the merged change I42, whose goal state Resolved is a value of
  the tag map, and a tracker that rejects the transition of PROJ-1: the one transition
  call is rejected, the tracker is left as it was, the body ends without raising, and
  the row (PROJ-1, Open, Resolved) is committed to the transition log. The poll of that
  change makes the rejected call as its only write to the tracker, ends without raising,
  stores the row and records itself with status 0.
\<close>

theorem rejected_transition_is_logged:
  "CallTransitionIssue ''PROJ-1'' ''21'' (Some ''1'') False \<in> set (trace (fst rejected_pair)) \<and>
   jira (fst rejected_pair) = jira example_world \<and>
   snd rejected_pair = None \<and>
   gerrit_jira_log (view (sql example_world)) = [] \<and>
   gerrit_jira_log (stored (sql (fst rejected_pair))) =
     [\<lparr>log_time = 1000, log_issue = ''PROJ-1'', from_status = ''Open'',
       to_status = ''Resolved''\<rparr>] \<and>
   map_option snd rejected_poll = Some None \<and>
   map_option (jira \<circ> fst) rejected_poll = Some [(''PROJ-1'', ''Open'')] \<and>
   map_option (filter is_tracker_write \<circ> trace \<circ> fst) rejected_poll =
     Some [CallTransitionIssue ''PROJ-1'' ''21'' (Some ''1'') False] \<and>
   map_option (gerrit_jira_log \<circ> stored \<circ> sql \<circ> fst) rejected_poll =
     Some [\<lparr>log_time = 1001, log_issue = ''PROJ-1'', from_status = ''Open'',
            to_status = ''Resolved''\<rparr>] \<and>
   map_option (poll_history \<circ> stored \<circ> sql \<circ> fst) rejected_poll =
     Some [\<lparr>period_start = 1000 - one_week, period_end = 1000, status = 0\<rparr>]"
proof -
  have pair: "CallTransitionIssue ''PROJ-1'' ''21'' (Some ''1'') False \<in> set (trace (fst rejected_pair)) \<and>
   jira (fst rejected_pair) = jira example_world \<and>
   snd rejected_pair = None \<and>
   gerrit_jira_log (view (sql example_world)) = [] \<and>
   gerrit_jira_log (stored (sql (fst rejected_pair))) =
     [\<lparr>log_time = 1000, log_issue = ''PROJ-1'', from_status = ''Open'',
       to_status = ''Resolved''\<rparr>]"
    by (simp add: rejected_pair_def run_defs)
  have poll: "rejected_poll = Some
     (\<lparr>jira = [(''PROJ-1'', ''Open'')],
       sql = \<lparr>view = \<lparr>gerrit_jira_map = [\<lparr>map_issue = ''PROJ-1'', map_changeid = ''I42''\<rparr>],
                      gerrit_jira_log = [\<lparr>log_time = 1001, log_issue = ''PROJ-1'',
                         from_status = ''Open'', to_status = ''Resolved''\<rparr>],
                      poll_history = [\<lparr>period_start = 1000 - one_week, period_end = 1000,
                         status = 0\<rparr>]\<rparr>,
              stored = \<lparr>gerrit_jira_map = [\<lparr>map_issue = ''PROJ-1'', map_changeid = ''I42''\<rparr>],
                      gerrit_jira_log = [\<lparr>log_time = 1001, log_issue = ''PROJ-1'',
                         from_status = ''Open'', to_status = ''Resolved''\<rparr>],
                      poll_history = [\<lparr>period_start = 1000 - one_week, period_end = 1000,
                         status = 0\<rparr>]\<rparr>\<rparr>,
       trace = [PrintPolling 1000, PrintChange ''I42'' ''MERGED'',
                InfoGoal ''PROJ-1'' ''Open'' ''Resolved'', CallTransitions ''PROJ-1'',
                CallTransitionIssue ''PROJ-1'' ''21'' (Some ''1'') False, WarnSpoofing],
       utc_clock = (\<lambda>n. 1000 + int n),
       clock_reads = 2\<rparr>, None)"
    by (simp add: rejected_poll_def poll_defs run_defs)
  show ?thesis
    unfolding poll using pair by simp
qed

text \<open>
  C2. Processing one issue of one change, after the association has been upserted:
  any call to the tracker about transitions (the lookup, the transition, the comment)
  happens only when the association table holds exactly one row for the issue. The
  count is at least one once the issue was found, and with two or more rows there is no
  such call, the tracker is left as it was and nothing is logged.
\<close>

theorem transition_only_for_single_association:
  assumes "process_pair jc dry nf tm rt ci cid st (k, resolution) w = (w', r)"
  shows "(\<forall>e\<in>set (new_events w w'). is_tracker_call e \<longrightarrow> count_issue k (sql w') = 1) \<and>
    (\<forall>iss. issue jc (jira w) k = Inr iss \<longrightarrow>
       (\<exists>s'. upsert_association k cid (sql w) = Inr s' \<and>
          count_issue k (sql w') = count_issue k s' \<and> 1 \<le> count_issue k s')) \<and>
    (2 \<le> count_issue k (sql w') \<longrightarrow>
       (\<forall>e\<in>set (new_events w w'). \<not> is_tracker_call e) \<and> jira w' = jira w \<and>
       gerrit_jira_log (view (sql w')) = gerrit_jira_log (view (sql w)))"
proof (cases "issue jc (jira w) k")
  case (Inl e)
  from process_pair_not_found [OF assms Inl] show ?thesis
    using Inl by (auto simp: new_events_def)
next
  case (Inr iss)
  let ?g = "goal_state_of st resolution"
  from process_pair_found [OF assms Inr] obtain s' where
    up: "upsert_association k cid (sql w) = Inr s'" and
    adv: "advance_issue jc dry nf tm rt ci k iss ?g
       (emit (InfoGoal k (status_name iss) ?g) (w\<lparr>sql := s'\<rparr>)) = (w', r)" and
    ae: "application_effect tm k iss ?g (w\<lparr>sql := s'\<rparr>) (w', r)"
    by blast
  let ?w1 = "emit (InfoGoal k (status_name iss) ?g) (w\<lparr>sql := s'\<rparr>)"
  from application_effectD [OF ae] obtain new where
    tr: "trace w' = trace w @ new" and
    mp: "gerrit_jira_map (view (sql w')) = gerrit_jira_map (view s')"
    by auto
  have cnt: "count_issue k (sql w') = count_issue k s'"
    using mp by (simp add: count_issue_def)
  have pos: "1 \<le> count_issue k s'"
    by (rule upsert_association_count [OF up])
  have tr1: "\<exists>new1. trace w' = trace ?w1 @ new1 \<and> new = InfoGoal k (status_name iss) ?g # new1"
    using application_effectD [OF advance_issue_effect [of tm k iss ?g ?w1 jc dry nf rt ci, unfolded adv]] tr
    by auto
  then obtain new1 where n1: "trace w' = trace ?w1 @ new1" "new = InfoGoal k (status_name iss) ?g # new1"
    by blast
  have calls: "guards_pass nf k iss ?g s'" if "e \<in> set (new_events w w')" "is_tracker_call e" for e
  proof -
    from that tr n1 have "e \<in> set (new_events ?w1 w')" by auto
    from advance_issue_calls_guarded [OF adv this that(2)] show ?thesis by simp
  qed
  have one: "count_issue k (sql w') = 1" if "e \<in> set (new_events w w')" "is_tracker_call e" for e
    using calls [OF that] pos cnt by (simp add: guards_pass_def)
  have blocked: "(\<forall>e\<in>set (new_events w w'). \<not> is_tracker_call e) \<and> jira w' = jira w \<and>
       gerrit_jira_log (view (sql w')) = gerrit_jira_log (view (sql w))"
    if "2 \<le> count_issue k (sql w')"
  proof -
    from that cnt have "\<not> guards_pass nf k iss ?g (sql ?w1)"
      by (simp add: guards_pass_def)
    from advance_issue_blocked [OF this, of jc dry tm rt ci] adv obtain e where
      "w' = emit e ?w1" "\<not> is_tracker_call e" by auto
    then show ?thesis
      using upsert_association_tables [OF up] by (auto simp: new_events_def)
  qed
  show ?thesis
    using one blocked up cnt pos Inr by auto
qed

theorem transition_only_for_single_association_witness:
  "CallTransitions ''PROJ-1'' \<in> set (new_events example_world (fst accepted_pair)) \<and>
   count_issue ''PROJ-1'' (sql (fst accepted_pair)) = 1 \<and>
   count_issue ''PROJ-1'' (sql (fst shared_pair)) = 2 \<and>
   filter is_tracker_call (new_events shared_world (fst shared_pair)) = [] \<and>
   jira (fst shared_pair) = jira shared_world"
proof -
  have e: "process_pair (fake_jira example_transitions True) False example_flow example_tag_map
       done_resolution (example_change ''NEW'') ''I42'' ''NEW'' (''PROJ-1'', ''Resolved'')
       example_world = (fst accepted_pair, snd accepted_pair)"
    by (simp add: accepted_pair_def)
  have s: "process_pair (fake_jira example_transitions True) False example_flow example_tag_map
       done_resolution (example_change ''NEW'') ''I42'' ''NEW'' (''PROJ-1'', ''Resolved'')
       shared_world = (fst shared_pair, snd shared_pair)"
    by (simp add: shared_pair_def)
  have c: "CallTransitions ''PROJ-1'' \<in> set (new_events example_world (fst accepted_pair))"
    by (simp add: accepted_pair_def run_defs new_events_def)
  have 1: "count_issue ''PROJ-1'' (sql (fst accepted_pair)) = 1"
    using transition_only_for_single_association [OF e] c is_tracker_call.simps(1) by blast
  have 2: "count_issue ''PROJ-1'' (sql (fst shared_pair)) = 2"
    by (simp add: shared_pair_def shared_world_def run_defs)
  have 3: "(\<forall>e\<in>set (new_events shared_world (fst shared_pair)). \<not> is_tracker_call e) \<and>
      jira (fst shared_pair) = jira shared_world"
    using transition_only_for_single_association [OF s] 2 by simp
  then have "filter is_tracker_call (new_events shared_world (fst shared_pair)) = []"
    by (simp add: filter_empty_conv)
  with c 1 2 3 show ?thesis by simp
qed

section \<open>A whole run\<close>

lemma for_each_preserves:
  assumes refl: "\<And>w. R w w"
    and trans: "\<And>a b c. R a b \<Longrightarrow> R b c \<Longrightarrow> R a c"
    and body: "\<And>x w w' r. body x w = (w', r) \<Longrightarrow> R w w'"
  shows "for_each body xs w = (w', r) \<Longrightarrow> R w w'"
proof (induction xs arbitrary: w)
  case Nil
  then show ?case by (simp add: refl)
next
  case (Cons x xs)
  obtain w1 r1 where b: "body x w = (w1, r1)" by force
  show ?case
  proof (cases r1)
    case None
    with Cons.prems b have "for_each body xs w1 = (w', r)" by simp
    from Cons.IH [OF this] body [OF b] show ?thesis by (rule trans [rotated])
  next
    case (Some e)
    with Cons.prems b have "w' = w1" by simp
    with body [OF b] show ?thesis by simp
  qed
qed

lemma process_change_preserves:
  assumes refl: "\<And>w. R w w"
    and trans: "\<And>a b c. R a b \<Longrightarrow> R b c \<Longrightarrow> R a c"
    and pair: "\<And>ci cid st pr w w' r.
       process_pair jc dry nf tm rt ci cid st pr w = (w', r) \<Longrightarrow> R w w'"
    and print: "\<And>a b w. R w (emit (PrintChange a b) w)"
    and del: "\<And>cid w. R w (w\<lparr>sql := delete_changeid cid (sql w)\<rparr>)"
  shows "process_change g jc dry nf tm rt ci w = (w', r) \<Longrightarrow> R w w'"
proof -
  assume pc: "process_change g jc dry nf tm rt ci w = (w', r)"
  let ?w0 = "emit (PrintChange (case ci_change_id ci of None \<Rightarrow> ''??'' | Some c \<Rightarrow> c)
                                 (case ci_status ci of None \<Rightarrow> ''??'' | Some st \<Rightarrow> st)) w"
  have r0: "R w ?w0" by (rule print)
  have fe: "for_each (process_pair jc dry nf tm rt ci cid st) pairs ?w0 = (w', r) \<Longrightarrow> R ?w0 w'"
    for cid st pairs
    by (rule for_each_preserves [where R = R and body = "process_pair jc dry nf tm rt ci cid st"])
       (auto intro: refl trans pair)
  have "R ?w0 w'"
    using pc fe del [of ?w0] refl [of ?w0]
    by (auto simp: process_change_def Let_def split: option.splits if_splits sum.splits)
  with r0 show ?thesis by (rule trans)
qed

lemma poll_pages_preserves:
  assumes refl: "\<And>w. R w w"
    and trans: "\<And>a b c. R a b \<Longrightarrow> R b c \<Longrightarrow> R a c"
    and change: "\<And>ci w w' r. process_change g jc dry nf tm rt ci w = (w', r) \<Longrightarrow> R w w'"
  shows "poll_pages fuel g jc p s e dry nf tm rt off w = Some (w', r) \<Longrightarrow> R w w'"
proof (induction fuel arbitrary: off w)
  case 0
  then show ?case by simp
next
  case (Suc fuel)
  show ?case
  proof (cases "get_changes g p s e off")
    case (Inl x)
    with Suc.prems show ?thesis by (simp add: refl)
  next
    case (Inr response)
    obtain w1 r1 where f: "for_each (process_change g jc dry nf tm rt) response w = (w1, r1)"
      by force
    have r1: "R w w1"
      by (rule for_each_preserves [where R = R, OF refl trans change f])
    show ?thesis
    proof (cases r1)
      case (Some x)
      with Suc.prems Inr f have "w' = w1" by simp
      with r1 show ?thesis by simp
    next
      case None
      show ?thesis
      proof (cases "response \<noteq> [] \<and>
          (case ci_more_changes (last response) of None \<Rightarrow> False | Some flag \<Rightarrow> flag)")
        case True
        with Suc.prems Inr f None
        have "poll_pages fuel g jc p s e dry nf tm rt (off + length response) w1 = Some (w', r)"
          by simp
        from Suc.IH [OF this] r1 show ?thesis by (rule trans [rotated])
      next
        case False
        with Suc.prems Inr f None have "w' = w1" by auto
        with r1 show ?thesis by simp
      qed
    qed
  qed
qed

text \<open>
  Fuel only bounds the number of pages: more fuel gives the same result, and a page that
  announces no further one ends the loop.
\<close>

lemma poll_pages_more_fuel:
  "poll_pages n g jc p s e dry nf tm rt off w = Some x \<Longrightarrow>
   poll_pages (n + k) g jc p s e dry nf tm rt off w = Some x"
proof (induction n arbitrary: off w)
  case 0
  then show ?case by simp
next
  case (Suc n)
  then show ?case
    by (auto split: sum.splits prod.splits option.splits if_splits)
qed

lemma poll_pages_last_page:
  assumes "get_changes g p s e off = Inr response"
    and "response = [] \<or> ci_more_changes (last response) \<noteq> Some True"
  shows "poll_pages (Suc n) g jc p s e dry nf tm rt off w =
     Some (for_each (process_change g jc dry nf tm rt) response w)"
proof -
  obtain w1 r1 where f: "for_each (process_change g jc dry nf tm rt) response w = (w1, r1)"
    by force
  show ?thesis
    using assms f by (cases r1) (auto split: option.splits)
qed

lemma update_issues_from_review_preserves:
  assumes refl: "\<And>w. R w w"
    and trans: "\<And>a b c. R a b \<Longrightarrow> R b c \<Longrightarrow> R a c"
    and pair: "\<And>rt ci cid st pr w w' r.
       process_pair jc dry nf tm rt ci cid st pr w = (w', r) \<Longrightarrow> R w w'"
    and print: "\<And>a b w. R w (emit (PrintChange a b) w)"
    and del: "\<And>cid w. R w (w\<lparr>sql := delete_changeid cid (sql w)\<rparr>)"
  shows "update_issues_from_review fuel g jc p s e dry nf tm w = Some (w', r) \<Longrightarrow> R w w'"
proof -
  assume u: "update_issues_from_review fuel g jc p s e dry nf tm w = Some (w', r)"
  have ch: "R wa wb" if "process_change g jc dry nf tm rt ci wa = (wb, rr)" for rt ci wa wb rr
    using process_change_preserves [where R = R, OF refl trans pair print del that] .
  have pp: "R w w'" if "poll_pages fuel g jc p s e dry nf tm rt 0 w = Some (w', r)" for rt
    using poll_pages_preserves [where R = R, OF refl trans ch that] .
  show ?thesis
    using u pp refl [of w]
    by (auto simp: update_issues_from_review_def split: sum.splits option.splits)
qed

text \<open>
  A run whose pages end within the fuel returns: the loop, the function and the command.
  The command returns exactly when update_issues_from_review does, with its exception.
\<close>

lemma poll_pages_returns:
  "pages_within n g p s e off \<Longrightarrow> \<exists>res. poll_pages n g jc p s e dry nf tm rt off w = Some res"
proof (induction n arbitrary: off w)
  case 0
  then show ?case by simp
next
  case (Suc n)
  show ?case
  proof (cases "get_changes g p s e off")
    case (Inl x)
    then show ?thesis by simp
  next
    case (Inr response)
    obtain w1 r1 where f: "for_each (process_change g jc dry nf tm rt) response w = (w1, r1)"
      by force
    show ?thesis
    proof (cases r1)
      case (Some x)
      with Inr f show ?thesis by simp
    next
      case None
      show ?thesis
      proof (cases "response \<noteq> [] \<and>
          (case ci_more_changes (last response) of None \<Rightarrow> False | Some flag \<Rightarrow> flag)")
        case True
        with Suc.prems Inr have "pages_within n g p s e (off + length response)" by simp
        from Suc.IH [OF this, of w1] True Inr f None show ?thesis by simp
      next
        case False
        with Inr f None show ?thesis by auto
      qed
    qed
  qed
qed

lemma pages_within_more_fuel:
  "pages_within n g p s e off \<Longrightarrow> pages_within (n + k) g p s e off"
  by (induction n arbitrary: off) (auto split: sum.splits)

lemma update_issues_from_review_returns:
  "pages_within n g p s e 0 \<Longrightarrow>
   \<exists>res. update_issues_from_review n g jc p s e dry nf tm w = Some res"
  using poll_pages_returns [of n g p s e 0 jc dry nf tm _ w]
  by (auto simp: update_issues_from_review_def split: sum.splits option.splits)

lemma run_args_unfold:
  "run_args fuel strftime g jc nf tm project dry w =
     (case update_issues_from_review fuel g jc project
             (strftime (fst (poll_window (utc_clock w (clock_reads w)) (poll_history (view (sql w))))))
             (strftime (utc_clock w (clock_reads w))) dry nf tm
             (emit (PrintPolling (utc_clock w (clock_reads w)))
                (w\<lparr>clock_reads := Suc (clock_reads w)\<rparr>)) of
        None \<Rightarrow> None
      | Some (w2, raised) \<Rightarrow>
          Some (if \<not> dry
                then w2\<lparr>sql := commit (add_PollHistory
                       \<lparr>period_start = fst (poll_window (utc_clock w (clock_reads w))
                                              (poll_history (view (sql w)))),
                        period_end = utc_clock w (clock_reads w),
                        status = (if raised = None then 0 else - 1)\<rparr> (sql w2))\<rparr>
                else w2,
                raised))"
proof -
  obtain a b where pw:
    "poll_window (utc_clock w (clock_reads w)) (poll_history (view (sql w))) = (a, b)"
    by force
  show ?thesis
    by (simp add: run_args_def utcnow_def pw split: option.splits)
qed

lemma run_args_forward:
  assumes "update_issues_from_review fuel g jc project (strftime (poll_start w))
       (strftime (poll_time w)) dry nf tm
       (emit (PrintPolling (poll_time w)) (w\<lparr>clock_reads := Suc (clock_reads w)\<rparr>)) =
       Some (w2, r)"
  shows "run_args fuel strftime g jc nf tm project dry w =
     Some (if \<not> dry
           then w2\<lparr>sql := commit (add_PollHistory
                  \<lparr>period_start = poll_start w, period_end = poll_time w,
                   status = (if r = None then 0 else - 1)\<rparr> (sql w2))\<rparr>
           else w2, r)"
  using assms unfolding run_args_unfold poll_start_def poll_time_def by simp

lemma run_args_None_iff:
  "run_args fuel strftime g jc nf tm project dry w = None \<longleftrightarrow>
   update_issues_from_review fuel g jc project (strftime (poll_start w))
       (strftime (poll_time w)) dry nf tm
       (emit (PrintPolling (poll_time w)) (w\<lparr>clock_reads := Suc (clock_reads w)\<rparr>)) = None"
  unfolding run_args_unfold poll_start_def poll_time_def by (simp split: option.splits)

lemma run_args_returns:
  assumes "pages_within fuel g project (strftime (poll_start w)) (strftime (poll_time w)) 0"
  shows "\<exists>w' r. run_args fuel strftime g jc nf tm project dry w = Some (w', r)"
proof -
  from update_issues_from_review_returns [OF assms] obtain w2 r where
    "update_issues_from_review fuel g jc project (strftime (poll_start w))
       (strftime (poll_time w)) dry nf tm
       (emit (PrintPolling (poll_time w)) (w\<lparr>clock_reads := Suc (clock_reads w)\<rparr>)) =
       Some (w2, r)" by force
  from run_args_forward [OF this] show ?thesis by blast
qed


section \<open>The dry run\<close>

lemma dry_run_frame_refl: "dry_run_frame w w"
  by (simp add: dry_run_frame_def)

lemma dry_run_frame_trans:
  assumes "dry_run_frame a b" and "dry_run_frame b c"
  shows "dry_run_frame a c"
proof -
  from assms(1) obtain n1 where n1: "trace b = trace a @ n1" "filter is_tracker_write n1 = []"
    by (auto simp: dry_run_frame_def)
  from assms(2) obtain n2 where n2: "trace c = trace b @ n2" "filter is_tracker_write n2 = []"
    by (auto simp: dry_run_frame_def)
  have tr: "\<exists>new. trace c = trace a @ new \<and> filter is_tracker_write new = []"
    using n1 n2 by (intro exI [of _ "n1 @ n2"]) simp
  have j: "jira c = jira a"
    using assms by (simp add: dry_run_frame_def)
  have v: "gerrit_jira_log (view (sql c)) = gerrit_jira_log (view (sql a))"
      "poll_history (view (sql c)) = poll_history (view (sql a))"
    using assms by (simp_all add: dry_run_frame_def)
  have sl: "gerrit_jira_log (stored (sql c)) = gerrit_jira_log (stored (sql a)) \<or>
      gerrit_jira_log (stored (sql c)) = gerrit_jira_log (view (sql a))"
    using assms by (auto simp: dry_run_frame_def)
  have sp: "poll_history (stored (sql c)) = poll_history (stored (sql a)) \<or>
      poll_history (stored (sql c)) = poll_history (view (sql a))"
    using assms by (auto simp: dry_run_frame_def)
  show ?thesis
    unfolding dry_run_frame_def using j tr v sl sp by blast
qed

lemma dry_run_frame_emit: "\<not> is_tracker_write e \<Longrightarrow> dry_run_frame w (emit e w)"
  by (simp add: dry_run_frame_def)

lemma dry_run_frame_delete: "dry_run_frame w (w\<lparr>sql := delete_changeid cid (sql w)\<rparr>)"
  by (simp add: dry_run_frame_def delete_changeid_def)

lemma dry_run_frame_upsert:
  "upsert_association k c (sql w) = Inr s' \<Longrightarrow> dry_run_frame w (w\<lparr>sql := s'\<rparr>)"
  by (auto simp: dry_run_frame_def upsert_association_result commit_def split: if_splits)

lemma dry_run_frame_advance:
  "advance_issue jc True nf tm rt ci k iss g w = (w', r) \<Longrightarrow> dry_run_frame w w'"
  using advance_issue_dry_run [of jc nf tm rt ci k iss g w w' r]
  by (auto simp: dry_run_frame_def)

lemma dry_run_frame_pair:
  assumes "process_pair jc True nf tm rt ci cid st pr w = (w', r)"
  shows "dry_run_frame w w'"
proof -
  obtain k resolution where pr: "pr = (k, resolution)" by (cases pr)
  show ?thesis
  proof (cases "issue jc (jira w) k")
    case (Inl e)
    from process_pair_not_found [OF assms [unfolded pr] Inl] show ?thesis
      by (auto simp: dry_run_frame_refl dry_run_frame_emit)
  next
    case (Inr iss)
    let ?g = "goal_state_of st resolution"
    from process_pair_found [OF assms [unfolded pr] Inr] obtain s' where
      up: "upsert_association k cid (sql w) = Inr s'" and
      adv: "advance_issue jc True nf tm rt ci k iss ?g
         (emit (InfoGoal k (status_name iss) ?g) (w\<lparr>sql := s'\<rparr>)) = (w', r)"
      by blast
    have 1: "dry_run_frame w (w\<lparr>sql := s'\<rparr>)" by (rule dry_run_frame_upsert [OF up])
    have 2: "dry_run_frame (w\<lparr>sql := s'\<rparr>) (emit (InfoGoal k (status_name iss) ?g) (w\<lparr>sql := s'\<rparr>))"
      by (rule dry_run_frame_emit) simp
    have 3: "dry_run_frame (emit (InfoGoal k (status_name iss) ?g) (w\<lparr>sql := s'\<rparr>)) w'"
      by (rule dry_run_frame_advance [OF adv])
    from 1 2 3 show ?thesis by (blast intro: dry_run_frame_trans)
  qed
qed

lemma dry_run_frame_update:
  assumes "update_issues_from_review fuel g jc p s e True nf tm w = Some (w', r)"
  shows "dry_run_frame w w'"
proof (rule update_issues_from_review_preserves [where R = dry_run_frame, OF _ _ _ _ _ assms])
  show "dry_run_frame w w" for w :: "'a world" by (rule dry_run_frame_refl)
  show "dry_run_frame a c" if "dry_run_frame a b" "dry_run_frame b c" for a b c :: "'a world"
    using that by (rule dry_run_frame_trans)
  show "dry_run_frame w w'" if "process_pair jc True nf tm rt ci cid st pr w = (w', r)"
    for rt ci cid st pr w w' r
    using that by (rule dry_run_frame_pair)
  show "dry_run_frame w (emit (PrintChange a b) w)" for a b and w :: "'a world"
    by (rule dry_run_frame_emit) simp
  show "dry_run_frame w (w\<lparr>sql := delete_changeid cid (sql w)\<rparr>)" for cid and w :: "'a world"
    by (rule dry_run_frame_delete)
qed

lemma dry_run_frame_run_args:
  assumes "run_args fuel strftime g jc nf tm project True w = Some (w', r)"
  shows "dry_run_frame w w'"
proof -
  let ?now = "utc_clock w (clock_reads w)"
  let ?w1 = "emit (PrintPolling ?now) (w\<lparr>clock_reads := Suc (clock_reads w)\<rparr>)"
  from assms have "\<exists>s e. update_issues_from_review fuel g jc project s e True nf tm ?w1 = Some (w', r)"
    by (auto simp: run_args_def utcnow_def split: prod.splits option.splits)
  then have "dry_run_frame ?w1 w'" by (auto dest: dry_run_frame_update)
  moreover have "dry_run_frame w ?w1" by (simp add: dry_run_frame_def)
  ultimately show ?thesis by (blast intro: dry_run_frame_trans)
qed


lemma advance_issue_dry_or_not:
  "advance_issue jc True nf tm rt ci k iss g w = advance_issue jc False nf tm rt ci k iss g w \<or>
   (\<exists>tid. advance_issue jc True nf tm rt ci k iss g w =
             (emit InfoDryRun (emit (CallTransitions (key iss)) w), None) \<and>
          advance_issue jc False nf tm rt ci k iss g w =
             apply_transition jc tm rt ci k iss g tid (emit (CallTransitions (key iss)) w))"
  by (auto simp: advance_issue_def split: sum.splits option.splits)

lemma process_pair_dry_or_not:
  assumes d: "process_pair jc True nf tm rt ci cid st (k, resolution) w = (wd, rd)"
    and n: "process_pair jc False nf tm rt ci cid st (k, resolution) w = (wn, rn)"
  shows "gerrit_jira_map (view (sql wd)) = gerrit_jira_map (view (sql wn)) \<and>
     (wd = wn \<and> rd = rn \<or>
      (\<exists>p rest. trace wd = p @ [InfoDryRun] \<and> trace wn = p @ rest \<and> rd = None \<and>
         p \<noteq> [] \<and> is_tracker_call (last p)))"
proof (cases "issue jc (jira w) k")
  case (Inl e)
  from process_pair_not_found [OF d Inl] process_pair_not_found [OF n Inl]
  show ?thesis by auto
next
  case (Inr iss)
  let ?g = "goal_state_of st resolution"
  from process_pair_found [OF d Inr] process_pair_found [OF n Inr] obtain s' where
    up: "upsert_association k cid (sql w) = Inr s'" and
    ad: "advance_issue jc True nf tm rt ci k iss ?g
       (emit (InfoGoal k (status_name iss) ?g) (w\<lparr>sql := s'\<rparr>)) = (wd, rd)" and
    an: "advance_issue jc False nf tm rt ci k iss ?g
       (emit (InfoGoal k (status_name iss) ?g) (w\<lparr>sql := s'\<rparr>)) = (wn, rn)"
    by auto
  let ?w1 = "emit (InfoGoal k (status_name iss) ?g) (w\<lparr>sql := s'\<rparr>)"
  let ?w2 = "emit (CallTransitions (key iss)) ?w1"
  from advance_issue_dry_or_not [of jc nf tm rt ci k iss ?g ?w1]
  show ?thesis
  proof (elim disjE exE conjE)
    assume "advance_issue jc True nf tm rt ci k iss ?g ?w1 =
        advance_issue jc False nf tm rt ci k iss ?g ?w1"
    with ad an show ?thesis by simp
  next
    fix tid
    assume dd: "advance_issue jc True nf tm rt ci k iss ?g ?w1 = (emit InfoDryRun ?w2, None)"
      and nn: "advance_issue jc False nf tm rt ci k iss ?g ?w1 =
         apply_transition jc tm rt ci k iss ?g tid ?w2"
    from dd ad have wd: "wd = emit InfoDryRun ?w2" "rd = None" by simp_all
    from nn an have "application_effect tm k iss ?g ?w2 (wn, rn)"
      using apply_transition_effect [of tm k iss ?g ?w2 jc rt ci tid] by simp
    from application_effectD [OF this] obtain new where
      tn: "trace wn = trace ?w2 @ new" and
      mn: "gerrit_jira_map (view (sql wn)) = gerrit_jira_map (view (sql ?w2))"
      by auto
    have "trace wd = trace ?w2 @ [InfoDryRun]" using wd by simp
    moreover have "trace ?w2 \<noteq> []" "is_tracker_call (last (trace ?w2))" by simp_all
    moreover have "gerrit_jira_map (view (sql wd)) = gerrit_jira_map (view (sql wn))"
      using wd mn by simp
    ultimately show ?thesis using tn wd(2) by blast
  qed
qed

lemma process_change_abandoned:
  "ci_status ci = Some ''ABANDONED'' \<Longrightarrow> ci_change_id ci = Some cid \<Longrightarrow>
   process_change g jc dry nf tm rt ci w =
     ((emit (PrintChange cid ''ABANDONED'') w)\<lparr>sql := delete_changeid cid (sql w)\<rparr>, None)"
  by (simp add: process_change_def)

text \<open>
  The dry run performs the upsert: for an issue the tracker knows, the session after the
  step is the one the upsert left.
\<close>

lemma process_pair_dry_upsert:
  assumes "process_pair jc True nf tm rt ci cid st (k, resolution) v = (vd, rd)"
    and "issue jc (jira v) k = Inr iss"
  shows "upsert_association k cid (sql v) = Inr (sql vd) \<and>
     (count_pair k cid (sql v) = 0 \<longrightarrow>
        gerrit_jira_map (view (sql vd)) =
          gerrit_jira_map (view (sql v)) @ [\<lparr>map_issue = k, map_changeid = cid\<rparr>] \<and>
        stored (sql vd) = view (sql vd)) \<and>
     (count_pair k cid (sql v) \<noteq> 0 \<longrightarrow> sql vd = sql v)"
proof -
  let ?g = "goal_state_of st resolution"
  from process_pair_found [OF assms] obtain s' where
    up: "upsert_association k cid (sql v) = Inr s'" and
    adv: "advance_issue jc True nf tm rt ci k iss ?g
       (emit (InfoGoal k (status_name iss) ?g) (v\<lparr>sql := s'\<rparr>)) = (vd, rd)"
    by blast
  from advance_issue_dry_run [OF adv] have s: "sql vd = s'" by simp
  from up s show ?thesis
    by (auto simp: upsert_association_result count_pair_zero_iff commit_def)
qed

text \<open>
  C3 (as the code has it). A dry run of the incremental poll leaves the tracker as it
  was, makes no transition or comment call, appends no row to the transition log and
  writes no poll record; it returns whenever the pages of the review system end within
  the fuel. The association table is not protected. For an issue the tracker knows, the
  dry run performs the upsert: a missing (issue, change) row is added and the session
  committed at once, and a row that is there leaves the session as it is. An abandoned
  change has its rows deleted from what the session sees, in the dry run exactly as
  without the flag, and this step commits nothing. After the step for one issue of one
  change the session sees the same association rows with the flag as without it; up to
  the transition lookup the dry run prints and logs what the normal run does, then logs
  that it skips the transition.
\<close>

theorem dry_run_mutations:
  "(run_args fuel strftime g jc nf tm project True w = Some (w', r) \<longrightarrow>
      jira w' = jira w \<and>
      filter is_tracker_write (new_events w w') = [] \<and>
      gerrit_jira_log (view (sql w')) = gerrit_jira_log (view (sql w)) \<and>
      poll_history (view (sql w')) = poll_history (view (sql w)) \<and>
      (stored (sql w) = view (sql w) \<longrightarrow>
         gerrit_jira_log (stored (sql w')) = gerrit_jira_log (stored (sql w)) \<and>
         poll_history (stored (sql w')) = poll_history (stored (sql w)))) \<and>
   (pages_within fuel g project (strftime (poll_start w)) (strftime (poll_time w)) 0 \<longrightarrow>
      (\<exists>w' r. run_args fuel strftime g jc nf tm project True w = Some (w', r))) \<and>
   (process_pair jc True nf tm rt ci cid st (k, resolution) v = (vd, rd) \<and>
    issue jc (jira v) k = Inr iss \<longrightarrow>
      upsert_association k cid (sql v) = Inr (sql vd) \<and>
      (count_pair k cid (sql v) = 0 \<longrightarrow>
         gerrit_jira_map (view (sql vd)) =
           gerrit_jira_map (view (sql v)) @ [\<lparr>map_issue = k, map_changeid = cid\<rparr>] \<and>
         stored (sql vd) = view (sql vd)) \<and>
      (count_pair k cid (sql v) \<noteq> 0 \<longrightarrow> sql vd = sql v)) \<and>
   (process_pair jc True nf tm rt ci cid st (k, resolution) v = (vd, rd) \<and>
    process_pair jc False nf tm rt ci cid st (k, resolution) v = (vn, rn) \<longrightarrow>
      gerrit_jira_map (view (sql vd)) = gerrit_jira_map (view (sql vn)) \<and>
      (vd = vn \<and> rd = rn \<or>
       (\<exists>p rest. trace vd = p @ [InfoDryRun] \<and> trace vn = p @ rest \<and> rd = None \<and>
          p \<noteq> [] \<and> is_tracker_call (last p)))) \<and>
   (ci_status ci = Some ''ABANDONED'' \<and> ci_change_id ci = Some cid \<longrightarrow>
      process_change g jc True nf tm rt ci v =
        ((emit (PrintChange cid ''ABANDONED'') v)\<lparr>sql := delete_changeid cid (sql v)\<rparr>, None) \<and>
      process_change g jc False nf tm rt ci v = process_change g jc True nf tm rt ci v \<and>
      gerrit_jira_map (view (delete_changeid cid (sql v))) =
        filter (\<lambda>row. map_changeid row \<noteq> cid) (gerrit_jira_map (view (sql v))) \<and>
      stored (delete_changeid cid (sql v)) = stored (sql v))"
proof -
  have frame: "jira w' = jira w \<and>
      filter is_tracker_write (new_events w w') = [] \<and>
      gerrit_jira_log (view (sql w')) = gerrit_jira_log (view (sql w)) \<and>
      poll_history (view (sql w')) = poll_history (view (sql w)) \<and>
      (stored (sql w) = view (sql w) \<longrightarrow>
         gerrit_jira_log (stored (sql w')) = gerrit_jira_log (stored (sql w)) \<and>
         poll_history (stored (sql w')) = poll_history (stored (sql w)))"
    if ra: "run_args fuel strftime g jc nf tm project True w = Some (w', r)"
  proof -
    note f = dry_run_frame_run_args [OF ra]
    from f have 1: "jira w' = jira w" by (simp add: dry_run_frame_def)
    from f have 2: "filter is_tracker_write (new_events w w') = []"
      by (auto simp: dry_run_frame_def)
    from f have 3: "gerrit_jira_log (view (sql w')) = gerrit_jira_log (view (sql w))"
      by (simp add: dry_run_frame_def)
    from f have 4: "poll_history (view (sql w')) = poll_history (view (sql w))"
      by (simp add: dry_run_frame_def)
    from f have 5: "gerrit_jira_log (stored (sql w')) = gerrit_jira_log (stored (sql w))"
      if "stored (sql w) = view (sql w)"
      using that by (auto simp: dry_run_frame_def)
    from f have 6: "poll_history (stored (sql w')) = poll_history (stored (sql w))"
      if "stored (sql w) = view (sql w)"
      using that by (auto simp: dry_run_frame_def)
    from 1 2 3 4 5 6 show ?thesis by blast
  qed
  have total: "\<exists>w' r. run_args fuel strftime g jc nf tm project True w = Some (w', r)"
    if "pages_within fuel g project (strftime (poll_start w)) (strftime (poll_time w)) 0"
    using that by (rule run_args_returns)
  have upsert: "upsert_association k cid (sql v) = Inr (sql vd) \<and>
      (count_pair k cid (sql v) = 0 \<longrightarrow>
         gerrit_jira_map (view (sql vd)) =
           gerrit_jira_map (view (sql v)) @ [\<lparr>map_issue = k, map_changeid = cid\<rparr>] \<and>
         stored (sql vd) = view (sql vd)) \<and>
      (count_pair k cid (sql v) \<noteq> 0 \<longrightarrow> sql vd = sql v)"
    if "process_pair jc True nf tm rt ci cid st (k, resolution) v = (vd, rd) \<and>
        issue jc (jira v) k = Inr iss"
    using that process_pair_dry_upsert [of jc nf tm rt ci cid st k resolution v vd rd iss]
    by blast
  have same: "gerrit_jira_map (view (sql vd)) = gerrit_jira_map (view (sql vn)) \<and>
      (vd = vn \<and> rd = rn \<or>
       (\<exists>p rest. trace vd = p @ [InfoDryRun] \<and> trace vn = p @ rest \<and> rd = None \<and>
          p \<noteq> [] \<and> is_tracker_call (last p)))"
    if "process_pair jc True nf tm rt ci cid st (k, resolution) v = (vd, rd) \<and>
        process_pair jc False nf tm rt ci cid st (k, resolution) v = (vn, rn)"
    using that process_pair_dry_or_not [of jc nf tm rt ci cid st k resolution v vd rd vn rn]
    by blast
  have abandon: "process_change g jc True nf tm rt ci v =
        ((emit (PrintChange cid ''ABANDONED'') v)\<lparr>sql := delete_changeid cid (sql v)\<rparr>, None) \<and>
      process_change g jc False nf tm rt ci v = process_change g jc True nf tm rt ci v \<and>
      gerrit_jira_map (view (delete_changeid cid (sql v))) =
        filter (\<lambda>row. map_changeid row \<noteq> cid) (gerrit_jira_map (view (sql v))) \<and>
      stored (delete_changeid cid (sql v)) = stored (sql v)"
    if "ci_status ci = Some ''ABANDONED'' \<and> ci_change_id ci = Some cid"
    using that by (simp add: process_change_abandoned delete_changeid_def)
  from frame total upsert same abandon show ?thesis by blast
qed

text \<open>
  The claim C3 as stated fails: a dry run on a database that associates PROJ-1 with the
  abandoned change I7 ends with that association deleted and the association of PROJ-1
  with I42 inserted, both committed.
\<close>

theorem dry_run_changes_associations:
  "gerrit_jira_map (stored (sql shared_world)) =
     [\<lparr>map_issue = ''PROJ-1'', map_changeid = ''I7''\<rparr>] \<and>
   map_option (gerrit_jira_map \<circ> stored \<circ> sql \<circ> fst) (example_poll example_gerrit True) =
     Some [\<lparr>map_issue = ''PROJ-1'', map_changeid = ''I42''\<rparr>]"
  by (simp add: poll_defs run_defs)

theorem dry_run_mutations_witness:
  "map_option (jira \<circ> fst) (example_poll example_gerrit True) = Some (jira shared_world) \<and>
   map_option (trace \<circ> fst) (example_poll example_gerrit True) =
     Some [PrintPolling 1000, PrintChange ''I7'' ''ABANDONED'', PrintChange ''I42'' ''NEW'',
           InfoGoal ''PROJ-1'' ''Open'' ''In Review'', CallTransitions ''PROJ-1'', InfoDryRun] \<and>
   map_option (gerrit_jira_log \<circ> stored \<circ> sql \<circ> fst) (example_poll example_gerrit True) = Some [] \<and>
   map_option (poll_history \<circ> stored \<circ> sql \<circ> fst) (example_poll example_gerrit True) = Some [] \<and>
   issue (fake_jira example_transitions True) (jira shared_world) ''PROJ-1'' =
     Inr \<lparr>key = ''PROJ-1'', status_name = ''Open''\<rparr> \<and>
   count_pair ''PROJ-1'' ''I42'' (sql shared_world) = 0 \<and>
   gerrit_jira_map (view (sql (fst dry_pair))) =
     [\<lparr>map_issue = ''PROJ-1'', map_changeid = ''I7''\<rparr>,
      \<lparr>map_issue = ''PROJ-1'', map_changeid = ''I42''\<rparr>] \<and>
   stored (sql (fst dry_pair)) = view (sql (fst dry_pair)) \<and>
   gerrit_jira_map (view (sql (fst shared_pair))) = gerrit_jira_map (view (sql (fst dry_pair))) \<and>
   snd abandoned_step = None \<and>
   gerrit_jira_map (view (sql (fst abandoned_step))) = [] \<and>
   gerrit_jira_map (stored (sql (fst abandoned_step))) =
     [\<lparr>map_issue = ''PROJ-1'', map_changeid = ''I7''\<rparr>]"
proof -
  let ?jc = "fake_jira example_transitions True"
  obtain w' r where e: "example_poll example_gerrit True = Some (w', r)"
    by (simp add: poll_defs run_defs)
  have s: "stored (sql shared_world) = view (sql shared_world)"
    by (simp add: shared_world_def)
  have l: "gerrit_jira_log (stored (sql shared_world)) = []"
      "poll_history (stored (sql shared_world)) = []"
    by (simp_all add: shared_world_def empty_tables_def)
  note inst = dry_run_mutations [where fuel = "Suc 0" and strftime = "\<lambda>t. []"
      and g = example_gerrit and jc = ?jc and nf = example_flow and tm = example_tag_map
      and project = "''proj''" and w = shared_world and w' = w' and r = r
      and rt = done_resolution and ci = "example_change ''NEW''" and cid = "''I42''"
      and st = "''NEW''" and k = "''PROJ-1''" and resolution = "''Resolved''"
      and v = shared_world and vd = "fst dry_pair" and rd = "snd dry_pair"
      and vn = "fst shared_pair" and rn = "snd shared_pair"
      and iss = "\<lparr>key = ''PROJ-1'', status_name = ''Open''\<rparr>"]
  from inst [THEN conjunct1] e s l
  have poll: "jira w' = jira shared_world" "gerrit_jira_log (stored (sql w')) = []"
    "poll_history (stored (sql w')) = []"
    by (simp_all add: example_poll_def)
  have tr: "map_option (trace \<circ> fst) (example_poll example_gerrit True) =
     Some [PrintPolling 1000, PrintChange ''I7'' ''ABANDONED'', PrintChange ''I42'' ''NEW'',
           InfoGoal ''PROJ-1'' ''Open'' ''In Review'', CallTransitions ''PROJ-1'', InfoDryRun]"
    by (simp add: poll_defs run_defs)
  have p: "process_pair ?jc True example_flow example_tag_map done_resolution
       (example_change ''NEW'') ''I42'' ''NEW'' (''PROJ-1'', ''Resolved'') shared_world =
       (fst dry_pair, snd dry_pair)"
    by (simp add: dry_pair_def)
  have n: "process_pair ?jc False example_flow example_tag_map done_resolution
       (example_change ''NEW'') ''I42'' ''NEW'' (''PROJ-1'', ''Resolved'') shared_world =
       (fst shared_pair, snd shared_pair)"
    by (simp add: shared_pair_def)
  have i: "issue ?jc (jira shared_world) ''PROJ-1'' = Inr \<lparr>key = ''PROJ-1'', status_name = ''Open''\<rparr>"
    by (simp add: fake_jira_def shared_world_def example_world_def)
  have c: "count_pair ''PROJ-1'' ''I42'' (sql shared_world) = 0"
    by (simp add: count_pair_def shared_world_def example_world_def empty_tables_def)
  from inst [THEN conjunct2, THEN conjunct2, THEN conjunct1] p i c
  have pair: "gerrit_jira_map (view (sql (fst dry_pair))) =
       gerrit_jira_map (view (sql shared_world)) @ [\<lparr>map_issue = ''PROJ-1'', map_changeid = ''I42''\<rparr>]"
     "stored (sql (fst dry_pair)) = view (sql (fst dry_pair))"
    by simp_all
  from inst [THEN conjunct2, THEN conjunct2, THEN conjunct2, THEN conjunct1] p n
  have same: "gerrit_jira_map (view (sql (fst shared_pair))) = gerrit_jira_map (view (sql (fst dry_pair)))"
    by simp
  have m: "gerrit_jira_map (view (sql shared_world)) = [\<lparr>map_issue = ''PROJ-1'', map_changeid = ''I7''\<rparr>]"
     "gerrit_jira_map (stored (sql shared_world)) = [\<lparr>map_issue = ''PROJ-1'', map_changeid = ''I7''\<rparr>]"
    by (simp_all add: shared_world_def example_world_def empty_tables_def)
  have a: "ci_status abandoned_change = Some ''ABANDONED'' \<and> ci_change_id abandoned_change = Some ''I7''"
    by (simp add: abandoned_change_def example_change_def)
  from dry_run_mutations [where g = example_gerrit and jc = ?jc and nf = example_flow
      and tm = example_tag_map and rt = done_resolution and ci = abandoned_change
      and cid = "''I7''" and v = shared_world,
      THEN conjunct2, THEN conjunct2, THEN conjunct2, THEN conjunct2] a
  have ab: "abandoned_step =
        ((emit (PrintChange ''I7'' ''ABANDONED'') shared_world)
           \<lparr>sql := delete_changeid ''I7'' (sql shared_world)\<rparr>, None)"
     "gerrit_jira_map (view (delete_changeid ''I7'' (sql shared_world))) =
        filter (\<lambda>row. map_changeid row \<noteq> ''I7'') (gerrit_jira_map (view (sql shared_world)))"
     "stored (delete_changeid ''I7'' (sql shared_world)) = stored (sql shared_world)"
    by (simp_all add: abandoned_step_def)
  have abn: "snd abandoned_step = None"
     "gerrit_jira_map (view (sql (fst abandoned_step))) = []"
     "gerrit_jira_map (stored (sql (fst abandoned_step))) =
        [\<lparr>map_issue = ''PROJ-1'', map_changeid = ''I7''\<rparr>]"
    unfolding ab(1) using ab(2,3) m by simp_all
  from poll tr e i c pair same m abn show ?thesis by simp
qed

section \<open>The poll window and the poll record\<close>

lemma last_success_cases:
  "last_success rows =
     (if filter (\<lambda>r. status r = 0) rows = [] then []
      else [last (filter (\<lambda>r. status r = 0) rows)])"
proof (cases "rev (filter (\<lambda>r. status r = 0) rows)")
  case Nil
  then show ?thesis by (simp add: last_success_def)
next
  case (Cons a as)
  then have "filter (\<lambda>r. status r = 0) rows = rev as @ [a]"
    by (simp add: rev_eq_Cons_iff)
  then show ?thesis by (simp add: last_success_def)
qed

lemma poll_window_start:
  "fst (poll_window end_time rows) =
     (if filter (\<lambda>r. status r = 0) rows = [] then end_time - one_week
      else period_end (last (filter (\<lambda>r. status r = 0) rows)))"
  by (simp add: poll_window_def last_success_cases)

lemma poll_window_end: "snd (poll_window end_time rows) = end_time"
  by (simp add: poll_window_def)

lemma poll_window_ignores:
  "status row \<noteq> 0 \<Longrightarrow> poll_window t (rows @ [row]) = poll_window t rows"
  by (simp add: poll_window_def last_success_def)

lemma poll_window_resumes:
  "status row = 0 \<Longrightarrow> fst (poll_window t (rows @ [row])) = period_end row"
  by (simp add: poll_window_start)

lemma process_pair_tables:
  assumes "process_pair jc dry nf tm rt ci cid st pr w = (w', r)"
  shows "poll_history (view (sql w')) = poll_history (view (sql w)) \<and>
     (distinct (gerrit_jira_map (view (sql w))) \<longrightarrow> distinct (gerrit_jira_map (view (sql w'))))"
proof -
  obtain k resolution where pr: "pr = (k, resolution)" by (cases pr)
  show ?thesis
  proof (cases "issue jc (jira w) k")
    case (Inl e)
    from process_pair_not_found [OF assms [unfolded pr] Inl] show ?thesis by auto
  next
    case (Inr iss)
    from process_pair_found [OF assms [unfolded pr] Inr] obtain s' where
      up: "upsert_association k cid (sql w) = Inr s'" and
      ae: "application_effect tm k iss (goal_state_of st resolution) (w\<lparr>sql := s'\<rparr>) (w', r)"
      by blast
    from application_effectD [OF ae] have
      "gerrit_jira_map (view (sql w')) = gerrit_jira_map (view s')"
      "poll_history (view (sql w')) = poll_history (view s')"
      by auto
    moreover have "poll_history (view s') = poll_history (view (sql w))"
      using upsert_association_tables [OF up] by simp
    moreover have "distinct (gerrit_jira_map (view (sql w))) \<longrightarrow> distinct (gerrit_jira_map (view s'))"
      using up by (auto simp: upsert_association_result commit_def split: if_splits)
    ultimately show ?thesis by simp
  qed
qed

lemma update_issues_from_review_tables:
  assumes "update_issues_from_review fuel g jc p s e dry nf tm w = Some (w', r)"
  shows "poll_history (view (sql w')) = poll_history (view (sql w)) \<and>
     (distinct (gerrit_jira_map (view (sql w))) \<longrightarrow> distinct (gerrit_jira_map (view (sql w'))))"
proof (rule update_issues_from_review_preserves
    [where R = "\<lambda>w w'. poll_history (view (sql w')) = poll_history (view (sql w)) \<and>
       (distinct (gerrit_jira_map (view (sql w))) \<longrightarrow> distinct (gerrit_jira_map (view (sql w'))))",
     OF _ _ _ _ _ assms])
  show "poll_history (view (sql w')) = poll_history (view (sql w)) \<and>
     (distinct (gerrit_jira_map (view (sql w))) \<longrightarrow> distinct (gerrit_jira_map (view (sql w'))))"
    if "process_pair jc dry nf tm rt ci cid st pr w = (w', r)" for rt ci cid st pr w w' r
    using that by (rule process_pair_tables)
qed (simp_all add: delete_changeid_def)


lemma run_args_result:
  assumes "run_args fuel strftime g jc nf tm project dry w = Some (w', r)"
  shows "\<exists>w2.
     update_issues_from_review fuel g jc project (strftime (poll_start w))
       (strftime (poll_time w)) dry nf tm
       (emit (PrintPolling (poll_time w)) (w\<lparr>clock_reads := Suc (clock_reads w)\<rparr>)) =
       Some (w2, r) \<and>
     poll_history (view (sql w2)) = poll_history (view (sql w)) \<and>
     w' = (if \<not> dry
           then w2\<lparr>sql := commit (add_PollHistory
                  \<lparr>period_start = poll_start w, period_end = poll_time w,
                   status = (if r = None then 0 else - 1)\<rparr> (sql w2))\<rparr>
           else w2)"
proof -
  let ?w1 = "emit (PrintPolling (poll_time w)) (w\<lparr>clock_reads := Suc (clock_reads w)\<rparr>)"
  from assms obtain w2 where
    u: "update_issues_from_review fuel g jc project (strftime (poll_start w))
          (strftime (poll_time w)) dry nf tm ?w1 = Some (w2, r)" and
    w': "w' = (if \<not> dry
           then w2\<lparr>sql := commit (add_PollHistory
                  \<lparr>period_start = poll_start w, period_end = poll_time w,
                   status = (if r = None then 0 else - 1)\<rparr> (sql w2))\<rparr>
           else w2)"
    unfolding run_args_unfold poll_start_def poll_time_def
    by (auto split: option.splits)
  from update_issues_from_review_tables [OF u]
  have "poll_history (view (sql w2)) = poll_history (view (sql w))" by simp
  with u w' show ?thesis by blast
qed

text \<open>
  C7 (as the code has it). The command returns exactly when update_issues_from_review
  does on the window, and so whenever the pages of the review system end within the
  fuel. When update_issues_from_review returned or raised, the command ends the same
  way, the exception being raised again, and a poll that is not a dry run has appended
  and committed exactly one record (period_start, period_end, status), of status 0 when
  update_issues_from_review returned and of status -1 when it raised; a dry run writes
  none. After a poll that raised, the next window is computed as before the poll, so
  with a record of status 0 in the history it starts where the failed one did; after a
  successful poll it starts at that poll's end.
\<close>

theorem poll_record_after_run:
  "(run_args fuel strftime g jc nf tm project dry w = None \<longleftrightarrow>
      update_issues_from_review fuel g jc project (strftime (poll_start w))
        (strftime (poll_time w)) dry nf tm
        (emit (PrintPolling (poll_time w)) (w\<lparr>clock_reads := Suc (clock_reads w)\<rparr>)) = None) \<and>
   (pages_within fuel g project (strftime (poll_start w)) (strftime (poll_time w)) 0 \<longrightarrow>
      (\<exists>w' r. run_args fuel strftime g jc nf tm project dry w = Some (w', r))) \<and>
   (update_issues_from_review fuel g jc project (strftime (poll_start w))
        (strftime (poll_time w)) dry nf tm
        (emit (PrintPolling (poll_time w)) (w\<lparr>clock_reads := Suc (clock_reads w)\<rparr>)) =
        Some (w2, r) \<longrightarrow>
      (\<exists>w'. run_args fuel strftime g jc nf tm project dry w = Some (w', r) \<and>
         (\<not> dry \<longrightarrow>
            poll_history (view (sql w')) = poll_history (view (sql w)) @
              [\<lparr>period_start = poll_start w, period_end = poll_time w,
                status = (if r = None then 0 else - 1)\<rparr>] \<and>
            stored (sql w') = view (sql w')) \<and>
         (dry \<longrightarrow> w' = w2 \<and> poll_history (view (sql w')) = poll_history (view (sql w))))) \<and>
   (run_args fuel strftime g jc nf tm project dry w = Some (w', r) \<longrightarrow>
      (\<exists>w2. update_issues_from_review fuel g jc project (strftime (poll_start w))
            (strftime (poll_time w)) dry nf tm
            (emit (PrintPolling (poll_time w)) (w\<lparr>clock_reads := Suc (clock_reads w)\<rparr>)) =
            Some (w2, r)) \<and>
      (\<not> dry \<longrightarrow>
         poll_history (view (sql w')) = poll_history (view (sql w)) @
           [\<lparr>period_start = poll_start w, period_end = poll_time w,
             status = (if r = None then 0 else - 1)\<rparr>] \<and>
         stored (sql w') = view (sql w')) \<and>
      (dry \<longrightarrow> poll_history (view (sql w')) = poll_history (view (sql w))) \<and>
      (r \<noteq> None \<longrightarrow>
         (\<forall>t. poll_window t (poll_history (view (sql w'))) =
              poll_window t (poll_history (view (sql w))))) \<and>
      (r \<noteq> None \<and> filter (\<lambda>row. status row = 0) (poll_history (view (sql w))) \<noteq> [] \<longrightarrow>
         (\<forall>t. fst (poll_window t (poll_history (view (sql w')))) = poll_start w)) \<and>
      (r = None \<and> \<not> dry \<longrightarrow>
         (\<forall>t. fst (poll_window t (poll_history (view (sql w')))) = poll_time w)))"
proof -
  let ?U = "update_issues_from_review fuel g jc project (strftime (poll_start w))
        (strftime (poll_time w)) dry nf tm
        (emit (PrintPolling (poll_time w)) (w\<lparr>clock_reads := Suc (clock_reads w)\<rparr>))"
  let ?rec = "\<lambda>r::exn option. \<lparr>period_start = poll_start w, period_end = poll_time w,
                status = (if r = None then 0 else - 1)\<rparr>"
  have bwd: "(\<exists>w2. ?U = Some (w2, r)) \<and>
      (\<not> dry \<longrightarrow>
         poll_history (view (sql w')) = poll_history (view (sql w)) @ [?rec r] \<and>
         stored (sql w') = view (sql w')) \<and>
      (dry \<longrightarrow> poll_history (view (sql w')) = poll_history (view (sql w))) \<and>
      (r \<noteq> None \<longrightarrow>
         (\<forall>t. poll_window t (poll_history (view (sql w'))) =
              poll_window t (poll_history (view (sql w))))) \<and>
      (r \<noteq> None \<and> filter (\<lambda>row. status row = 0) (poll_history (view (sql w))) \<noteq> [] \<longrightarrow>
         (\<forall>t. fst (poll_window t (poll_history (view (sql w')))) = poll_start w)) \<and>
      (r = None \<and> \<not> dry \<longrightarrow>
         (\<forall>t. fst (poll_window t (poll_history (view (sql w')))) = poll_time w))"
    if ra: "run_args fuel strftime g jc nf tm project dry w = Some (w', r)" for w' r
  proof -
    from run_args_result [OF ra] obtain w2 where
      u: "?U = Some (w2, r)" and
      p: "poll_history (view (sql w2)) = poll_history (view (sql w))" and
      w': "w' = (if \<not> dry then w2\<lparr>sql := commit (add_PollHistory (?rec r) (sql w2))\<rparr> else w2)"
      by blast
    have written: "poll_history (view (sql w')) = poll_history (view (sql w)) @ [?rec r] \<and>
         stored (sql w') = view (sql w')" if "\<not> dry"
      using that w' p by (simp add: commit_def add_PollHistory_def)
    have kept: "poll_history (view (sql w')) = poll_history (view (sql w))" if dry
      using that w' p by simp
    have failed: "poll_window t (poll_history (view (sql w'))) =
        poll_window t (poll_history (view (sql w)))" if "r \<noteq> None" for t
    proof (cases dry)
      case True
      with kept show ?thesis by simp
    next
      case False
      with written that show ?thesis by (simp add: poll_window_ignores)
    qed
    have retried: "fst (poll_window t (poll_history (view (sql w')))) = poll_start w"
      if "r \<noteq> None" "filter (\<lambda>row. status row = 0) (poll_history (view (sql w))) \<noteq> []" for t
      using failed [OF that(1), of t] that(2) by (simp add: poll_start_def poll_window_start)
    have succeeded: "fst (poll_window t (poll_history (view (sql w')))) = poll_time w"
      if "r = None" "\<not> dry" for t
      using written [OF that(2)] that(1) by (simp add: poll_window_resumes)
    from u written kept failed retried succeeded show ?thesis by blast
  qed
  have fwd: "\<exists>w'. run_args fuel strftime g jc nf tm project dry w = Some (w', r) \<and>
         (\<not> dry \<longrightarrow>
            poll_history (view (sql w')) = poll_history (view (sql w)) @ [?rec r] \<and>
            stored (sql w') = view (sql w')) \<and>
         (dry \<longrightarrow> w' = w2 \<and> poll_history (view (sql w')) = poll_history (view (sql w)))"
    if u: "?U = Some (w2, r)"
  proof -
    let ?w' = "if \<not> dry then w2\<lparr>sql := commit (add_PollHistory (?rec r) (sql w2))\<rparr> else w2"
    have ra: "run_args fuel strftime g jc nf tm project dry w = Some (?w', r)"
      by (rule run_args_forward [OF u])
    from bwd [OF ra] have
      "\<not> dry \<longrightarrow>
         poll_history (view (sql ?w')) = poll_history (view (sql w)) @ [?rec r] \<and>
         stored (sql ?w') = view (sql ?w')"
      "dry \<longrightarrow> poll_history (view (sql ?w')) = poll_history (view (sql w))"
      by blast+
    moreover have "dry \<longrightarrow> ?w' = w2" by simp
    ultimately show ?thesis using ra by blast
  qed
  have none: "run_args fuel strftime g jc nf tm project dry w = None \<longleftrightarrow> ?U = None"
    by (rule run_args_None_iff)
  have total: "pages_within fuel g project (strftime (poll_start w)) (strftime (poll_time w)) 0 \<longrightarrow>
      (\<exists>w' r. run_args fuel strftime g jc nf tm project dry w = Some (w', r))"
    using run_args_returns by blast
  from none total fwd bwd [of w' r] show ?thesis by blast
qed

text \<open>
  The claim C7 as stated fails: a poll whose query of the review system fails ends with
  the exception and with one record of status -1 committed to a poll history that was
  empty before.
\<close>

theorem failed_poll_writes_record:
  "poll_history (stored (sql shared_world)) = [] \<and>
   map_option snd (example_poll failing_gerrit False) =
     Some (Some (OtherError ''connection refused'')) \<and>
   map_option (poll_history \<circ> stored \<circ> sql \<circ> fst) (example_poll failing_gerrit False) =
     Some [\<lparr>period_start = 1000 - one_week, period_end = 1000, status = - 1\<rparr>]"
  by (simp add: failing_gerrit_def poll_defs run_defs)

theorem poll_record_after_run_witness:
  "pages_within (Suc 0) example_gerrit ''proj'' [] [] 0 \<and>
   map_option snd (example_poll example_gerrit False) = Some None \<and>
   map_option (poll_history \<circ> stored \<circ> sql \<circ> fst) (example_poll example_gerrit False) =
     Some [\<lparr>period_start = 1000 - one_week, period_end = 1000, status = 0\<rparr>] \<and>
   map_option snd failed_history_poll = Some (Some (OtherError ''connection refused'')) \<and>
   map_option (poll_history \<circ> stored \<circ> sql \<circ> fst) failed_history_poll =
     Some (example_history @ [\<lparr>period_start = 300, period_end = 1000, status = - 1\<rparr>]) \<and>
   map_option (\<lambda>x. fst (poll_window 2000 (poll_history (view (sql (fst x))))))
     failed_history_poll = Some 300"
proof -
  let ?jc = "fake_jira example_transitions True"
  have t: "poll_time shared_world = 1000" "poll_start shared_world = 1000 - one_week"
    "poll_history (view (sql shared_world)) = []"
    by (simp_all add: poll_time_def poll_start_def poll_window_def last_success_def
        shared_world_def example_world_def empty_tables_def)
  have pg: "pages_within (Suc 0) example_gerrit ''proj'' [] [] 0"
    by (simp add: example_gerrit_def fake_gerrit_def abandoned_change_def example_change_def)
  obtain w2 where u: "update_issues_from_review (Suc 0) example_gerrit ?jc ''proj''
        ((\<lambda>t. []) (poll_start shared_world)) ((\<lambda>t. []) (poll_time shared_world)) False
        example_flow example_tag_map
        (emit (PrintPolling (poll_time shared_world))
           (shared_world\<lparr>clock_reads := Suc (clock_reads shared_world)\<rparr>)) = Some (w2, None)"
    by (simp add: t poll_defs run_defs)
  note ok = poll_record_after_run [where fuel = "Suc 0" and strftime = "\<lambda>t. []"
      and g = example_gerrit and jc = ?jc and nf = example_flow and tm = example_tag_map
      and project = "''proj''" and dry = False and w = shared_world and ?w2.0 = w2 and r = None]
  from ok u obtain w' where
    ra: "run_args (Suc 0) (\<lambda>t. []) example_gerrit ?jc example_flow example_tag_map ''proj''
           False shared_world = Some (w', None)" and
    h: "poll_history (view (sql w')) = poll_history (view (sql shared_world)) @
          [\<lparr>period_start = poll_start shared_world, period_end = poll_time shared_world,
            status = 0\<rparr>]" and
    s: "stored (sql w') = view (sql w')"
    by auto
  have good: "map_option snd (example_poll example_gerrit False) = Some None \<and>
     map_option (poll_history \<circ> stored \<circ> sql \<circ> fst) (example_poll example_gerrit False) =
       Some [\<lparr>period_start = 1000 - one_week, period_end = 1000, status = 0\<rparr>]"
    using ra h s t by (simp add: example_poll_def)
  have th: "poll_time history_world = 1000" "poll_start history_world = 300"
    "poll_history (view (sql history_world)) = example_history"
    "filter (\<lambda>row. status row = 0) (poll_history (view (sql history_world))) \<noteq> []"
    by (simp_all add: poll_time_def poll_start_def poll_window_def last_success_def
        history_world_def example_world_def empty_tables_def example_history_def)
  let ?e = "OtherError ''connection refused''"
  obtain w3 where uf: "update_issues_from_review (Suc 0) failing_gerrit ?jc ''proj''
        (window_strftime (poll_start history_world)) (window_strftime (poll_time history_world))
        False example_flow example_tag_map
        (emit (PrintPolling (poll_time history_world))
           (history_world\<lparr>clock_reads := Suc (clock_reads history_world)\<rparr>)) = Some (w3, Some ?e)"
    by (simp add: update_issues_from_review_def find_resolve_to_def fake_jira_def
        failing_gerrit_def)
  note bad = poll_record_after_run [where fuel = "Suc 0" and strftime = window_strftime
      and g = failing_gerrit and jc = ?jc and nf = example_flow and tm = example_tag_map
      and project = "''proj''" and dry = False and w = history_world and ?w2.0 = w3
      and r = "Some ?e"]
  from bad [THEN conjunct2, THEN conjunct2, THEN conjunct1] uf obtain w4 where
    rf: "run_args (Suc 0) window_strftime failing_gerrit ?jc example_flow example_tag_map
           ''proj'' False history_world = Some (w4, Some ?e)" and
    hf: "poll_history (view (sql w4)) = poll_history (view (sql history_world)) @
          [\<lparr>period_start = poll_start history_world, period_end = poll_time history_world,
            status = - 1\<rparr>]" and
    sf: "stored (sql w4) = view (sql w4)"
    by auto
  from bad [where w' = w4, THEN conjunct2, THEN conjunct2, THEN conjunct2] rf th(4)
  have nx: "fst (poll_window 2000 (poll_history (view (sql w4)))) = poll_start history_world"
    by blast
  have fail: "map_option snd failed_history_poll = Some (Some ?e) \<and>
     map_option (poll_history \<circ> stored \<circ> sql \<circ> fst) failed_history_poll =
       Some (example_history @ [\<lparr>period_start = 300, period_end = 1000, status = - 1\<rparr>]) \<and>
     map_option (\<lambda>x. fst (poll_window 2000 (poll_history (view (sql (fst x))))))
       failed_history_poll = Some 300"
    using rf hf sf nx th by (simp add: failed_history_poll_def)
  from pg good fail show ?thesis by simp
qed

text \<open>
  C8. The window of a poll ends at the time read from the clock. It starts at the
  period_end of the last row of status 0 in the poll history (the row with the highest
  rid among them), and one week (604800 seconds) before its end when there is no such
  row. A row of any other status changes nothing; in particular appending one leaves
  the window as it is. The command takes the end from the clock and the start from the
  poll history its session sees, queries the review system for exactly this window and
  writes it into the record of the poll; it returns whenever the pages of the review
  system end within the fuel.
\<close>

theorem poll_window_from_last_success:
  "snd (poll_window end_time rows) = end_time \<and>
   fst (poll_window end_time rows) =
     (if filter (\<lambda>r. status r = 0) rows = [] then end_time - one_week
      else period_end (last (filter (\<lambda>r. status r = 0) rows))) \<and>
   one_week = 604800000000 \<and>
   (status row \<noteq> 0 \<longrightarrow> poll_window end_time (rows @ [row]) = poll_window end_time rows) \<and>
   (status row = 0 \<longrightarrow> fst (poll_window end_time (rows @ [row])) = period_end row) \<and>
   (run_args fuel strftime g jc nf tm project dry w = Some (w', r) \<longrightarrow>
      (\<exists>w2. update_issues_from_review fuel g jc project
         (strftime (fst (poll_window (poll_time w) (poll_history (view (sql w))))))
         (strftime (snd (poll_window (poll_time w) (poll_history (view (sql w))))))
         dry nf tm
         (emit (PrintPolling (poll_time w)) (w\<lparr>clock_reads := Suc (clock_reads w)\<rparr>)) =
         Some (w2, r))) \<and>
   run_args fuel strftime g jc nf tm project dry w =
     (case update_issues_from_review fuel g jc project
             (strftime (if filter (\<lambda>r. status r = 0) (poll_history (view (sql w))) = []
                        then utc_clock w (clock_reads w) - one_week
                        else period_end (last (filter (\<lambda>r. status r = 0)
                               (poll_history (view (sql w)))))))
             (strftime (utc_clock w (clock_reads w))) dry nf tm
             (emit (PrintPolling (utc_clock w (clock_reads w)))
                (w\<lparr>clock_reads := Suc (clock_reads w)\<rparr>)) of
        None \<Rightarrow> None
      | Some (w2, raised) \<Rightarrow>
          Some (if \<not> dry
                then w2\<lparr>sql := commit (add_PollHistory
                       \<lparr>period_start =
                          (if filter (\<lambda>r. status r = 0) (poll_history (view (sql w))) = []
                           then utc_clock w (clock_reads w) - one_week
                           else period_end (last (filter (\<lambda>r. status r = 0)
                                  (poll_history (view (sql w)))))),
                        period_end = utc_clock w (clock_reads w),
                        status = (if raised = None then 0 else - 1)\<rparr> (sql w2))\<rparr>
                else w2,
                raised)) \<and>
   (pages_within fuel g project
      (strftime (fst (poll_window (poll_time w) (poll_history (view (sql w))))))
      (strftime (poll_time w)) 0 \<longrightarrow>
      (\<exists>w' r. run_args fuel strftime g jc nf tm project dry w = Some (w', r)))"
proof (intro conjI impI)
  show "one_week = 604800000000" by (simp add: one_week_def)
next
  assume "run_args fuel strftime g jc nf tm project dry w = Some (w', r)"
  from run_args_result [OF this]
  show "\<exists>w2. update_issues_from_review fuel g jc project
         (strftime (fst (poll_window (poll_time w) (poll_history (view (sql w))))))
         (strftime (snd (poll_window (poll_time w) (poll_history (view (sql w))))))
         dry nf tm
         (emit (PrintPolling (poll_time w)) (w\<lparr>clock_reads := Suc (clock_reads w)\<rparr>)) =
         Some (w2, r)"
    by (auto simp: poll_start_def poll_window_end)
next
  show "run_args fuel strftime g jc nf tm project dry w =
     (case update_issues_from_review fuel g jc project
             (strftime (if filter (\<lambda>r. status r = 0) (poll_history (view (sql w))) = []
                        then utc_clock w (clock_reads w) - one_week
                        else period_end (last (filter (\<lambda>r. status r = 0)
                               (poll_history (view (sql w)))))))
             (strftime (utc_clock w (clock_reads w))) dry nf tm
             (emit (PrintPolling (utc_clock w (clock_reads w)))
                (w\<lparr>clock_reads := Suc (clock_reads w)\<rparr>)) of
        None \<Rightarrow> None
      | Some (w2, raised) \<Rightarrow>
          Some (if \<not> dry
                then w2\<lparr>sql := commit (add_PollHistory
                       \<lparr>period_start =
                          (if filter (\<lambda>r. status r = 0) (poll_history (view (sql w))) = []
                           then utc_clock w (clock_reads w) - one_week
                           else period_end (last (filter (\<lambda>r. status r = 0)
                                  (poll_history (view (sql w)))))),
                        period_end = utc_clock w (clock_reads w),
                        status = (if raised = None then 0 else - 1)\<rparr> (sql w2))\<rparr>
                else w2,
                raised))"
    unfolding run_args_unfold poll_window_start by (rule refl)
next
  assume "pages_within fuel g project
      (strftime (fst (poll_window (poll_time w) (poll_history (view (sql w))))))
      (strftime (poll_time w)) 0"
  then show "\<exists>w' r. run_args fuel strftime g jc nf tm project dry w = Some (w', r)"
    using run_args_returns [of fuel g project strftime w jc nf tm dry]
    by (simp add: poll_start_def)
qed (simp_all add: poll_window_end poll_window_start poll_window_ignores)

theorem poll_window_from_last_success_witness:
  "poll_window 500 example_history = (300, 500) \<and>
   poll_window 500 [\<lparr>period_start = 300, period_end = 400, status = - 1\<rparr>] =
     (500 - 604800000000, 500) \<and>
   poll_window 500 [] = (500 - 604800000000, 500) \<and>
   pages_within (Suc 0) window_gerrit ''proj'' ''T300'' ''T1000'' 0 \<and>
   map_option snd window_poll = Some None \<and>
   map_option (poll_history \<circ> stored \<circ> sql \<circ> fst) window_poll =
     Some (example_history @ [\<lparr>period_start = 300, period_end = 1000, status = 0\<rparr>])"
proof -
  have w: "fst (poll_window 500 rows) =
     (if filter (\<lambda>r. status r = 0) rows = [] then 500 - 604800000000
      else period_end (last (filter (\<lambda>r. status r = 0) rows))) \<and>
     snd (poll_window 500 rows) = 500" for rows
    using poll_window_from_last_success [where end_time = 500 and rows = rows, THEN conjunct1]
      poll_window_from_last_success [where end_time = 500 and rows = rows, THEN conjunct2,
        THEN conjunct1]
      poll_window_from_last_success [where end_time = 500 and rows = rows, THEN conjunct2,
        THEN conjunct2, THEN conjunct1]
    by simp
  have 1: "fst (poll_window 500 example_history) = 300 \<and> snd (poll_window 500 example_history) = 500"
    using w [of example_history] by (simp add: example_history_def)
  have 2: "fst (poll_window 500 [\<lparr>period_start = 300, period_end = 400, status = - 1\<rparr>]) =
       500 - 604800000000 \<and>
     snd (poll_window 500 [\<lparr>period_start = 300, period_end = 400, status = - 1\<rparr>]) = 500"
    using w [of "[\<lparr>period_start = 300, period_end = 400, status = - 1\<rparr>]"] by simp
  have 3: "fst (poll_window 500 []) = 500 - 604800000000 \<and> snd (poll_window 500 []) = 500"
    using w [of "[]"] by simp
  have pg: "pages_within (Suc 0) window_gerrit ''proj'' ''T300'' ''T1000'' 0"
    by (simp add: window_gerrit_def)
  note run = poll_window_from_last_success [where fuel = "Suc 0" and strftime = window_strftime
      and g = window_gerrit and jc = "fake_jira example_transitions True" and nf = example_flow
      and tm = example_tag_map and project = "''proj''" and dry = False and w = history_world,
      THEN conjunct2, THEN conjunct2, THEN conjunct2, THEN conjunct2, THEN conjunct2,
      THEN conjunct2, THEN conjunct1]
  have 4: "map_option snd window_poll = Some None"
    unfolding window_poll_def run
    by (simp add: history_world_def example_history_def window_strftime_def window_gerrit_def
        update_issues_from_review_def find_resolve_to_def fake_jira_def example_world_def
        empty_tables_def emit_def)
  have 5: "map_option (poll_history \<circ> stored \<circ> sql \<circ> fst) window_poll =
     Some (example_history @ [\<lparr>period_start = 300, period_end = 1000, status = 0\<rparr>])"
    unfolding window_poll_def run
    by (simp add: history_world_def example_history_def window_strftime_def window_gerrit_def
        update_issues_from_review_def find_resolve_to_def fake_jira_def example_world_def
        empty_tables_def emit_def commit_def add_PollHistory_def)
  from 1 2 3 pg 4 5 show ?thesis by (simp add: prod_eq_iff)
qed

section \<open>The association upsert\<close>

lemma add_GerritJira_distinct:
  "distinct (gerrit_jira_map (view s)) \<Longrightarrow> add_GerritJira row s = Inr s' \<Longrightarrow>
   distinct (gerrit_jira_map (view s'))"
  by (auto simp: add_GerritJira_def split: if_splits)

lemma upsert_association_twice:
  "ebind (upsert_association k c s) (upsert_association k c) = upsert_association k c s"
  by (simp add: upsert_association_result commit_def)

text \<open>
  C6. The upsert of an (issue, change) pair that the session already sees changes
  nothing. Otherwise it appends exactly one row for the pair, leaves the other tables
  alone and commits at once. Doing it twice is doing it once. The table itself refuses
  a second row for a pair (IntegrityError), and a table without duplicate rows has none
  after an insert, after an upsert, or after a whole run of update_issues_from_review.
\<close>

theorem upsert_association_idempotent:
  "(\<lparr>map_issue = k, map_changeid = c\<rparr> \<in> set (gerrit_jira_map (view s)) \<longrightarrow>
      upsert_association k c s = Inr s) \<and>
   (\<lparr>map_issue = k, map_changeid = c\<rparr> \<notin> set (gerrit_jira_map (view s)) \<longrightarrow>
      (\<exists>s'. upsert_association k c s = Inr s' \<and>
         gerrit_jira_map (view s') =
           gerrit_jira_map (view s) @ [\<lparr>map_issue = k, map_changeid = c\<rparr>] \<and>
         gerrit_jira_log (view s') = gerrit_jira_log (view s) \<and>
         poll_history (view s') = poll_history (view s) \<and>
         stored s' = view s')) \<and>
   ebind (upsert_association k c s) (upsert_association k c) = upsert_association k c s \<and>
   (\<lparr>map_issue = k, map_changeid = c\<rparr> \<in> set (gerrit_jira_map (view s)) \<longrightarrow>
      add_GerritJira \<lparr>map_issue = k, map_changeid = c\<rparr> s = Inl IntegrityError) \<and>
   (distinct (gerrit_jira_map (view s)) \<and> add_GerritJira row s = Inr s1 \<longrightarrow>
      distinct (gerrit_jira_map (view s1))) \<and>
   (distinct (gerrit_jira_map (view s)) \<and> upsert_association k c s = Inr s2 \<longrightarrow>
      distinct (gerrit_jira_map (view s2))) \<and>
   (distinct (gerrit_jira_map (view (sql w))) \<and>
    update_issues_from_review fuel g jc p start_time end_time dry nf tm w = Some (w', r) \<longrightarrow>
      distinct (gerrit_jira_map (view (sql w'))))"
proof (intro conjI impI)
  show "ebind (upsert_association k c s) (upsert_association k c) = upsert_association k c s"
    by (rule upsert_association_twice)
next
  assume "distinct (gerrit_jira_map (view s)) \<and> add_GerritJira row s = Inr s1"
  then show "distinct (gerrit_jira_map (view s1))"
    using add_GerritJira_distinct [of s row s1] by simp
next
  assume "distinct (gerrit_jira_map (view s)) \<and> upsert_association k c s = Inr s2"
  then show "distinct (gerrit_jira_map (view s2))"
    by (auto simp: upsert_association_result commit_def split: if_splits)
next
  assume "distinct (gerrit_jira_map (view (sql w))) \<and>
    update_issues_from_review fuel g jc p start_time end_time dry nf tm w = Some (w', r)"
  then show "distinct (gerrit_jira_map (view (sql w')))"
    using update_issues_from_review_tables [of fuel g jc p start_time end_time dry nf tm w w' r]
    by simp
qed (simp_all add: upsert_association_result commit_def add_GerritJira_def)

theorem upsert_association_idempotent_witness:
  "gerrit_jira_map (view (sql shared_world)) =
     [\<lparr>map_issue = ''PROJ-1'', map_changeid = ''I7''\<rparr>] \<and>
   upsert_association ''PROJ-1'' ''I7'' (sql shared_world) = Inr (sql shared_world) \<and>
   add_GerritJira \<lparr>map_issue = ''PROJ-1'', map_changeid = ''I7''\<rparr> (sql shared_world) =
     Inl IntegrityError \<and>
   (\<exists>s'. upsert_association ''PROJ-1'' ''I42'' (sql shared_world) = Inr s' \<and>
      gerrit_jira_map (view s') =
        [\<lparr>map_issue = ''PROJ-1'', map_changeid = ''I7''\<rparr>,
         \<lparr>map_issue = ''PROJ-1'', map_changeid = ''I42''\<rparr>] \<and>
      stored s' = view s' \<and>
      upsert_association ''PROJ-1'' ''I42'' s' = Inr s')"
proof -
  have m: "gerrit_jira_map (view (sql shared_world)) =
     [\<lparr>map_issue = ''PROJ-1'', map_changeid = ''I7''\<rparr>]"
    by (simp add: shared_world_def empty_tables_def)
  have in7: "\<lparr>map_issue = ''PROJ-1'', map_changeid = ''I7''\<rparr> \<in>
      set (gerrit_jira_map (view (sql shared_world)))"
    and out42: "\<lparr>map_issue = ''PROJ-1'', map_changeid = ''I42''\<rparr> \<notin>
      set (gerrit_jira_map (view (sql shared_world)))"
    by (simp_all add: m)
  have a: "upsert_association ''PROJ-1'' ''I7'' (sql shared_world) = Inr (sql shared_world)"
    using upsert_association_idempotent [of "''PROJ-1''" "''I7''" "sql shared_world"] in7
    by blast
  have b: "add_GerritJira \<lparr>map_issue = ''PROJ-1'', map_changeid = ''I7''\<rparr> (sql shared_world) =
     Inl IntegrityError"
    using upsert_association_idempotent [of "''PROJ-1''" "''I7''" "sql shared_world"] in7
    by blast
  have "\<exists>s'. upsert_association ''PROJ-1'' ''I42'' (sql shared_world) = Inr s' \<and>
      gerrit_jira_map (view s') = gerrit_jira_map (view (sql shared_world)) @
        [\<lparr>map_issue = ''PROJ-1'', map_changeid = ''I42''\<rparr>] \<and>
      stored s' = view s'"
    using upsert_association_idempotent [of "''PROJ-1''" "''I42''" "sql shared_world"] out42
    by blast
  then obtain s' where s': "upsert_association ''PROJ-1'' ''I42'' (sql shared_world) = Inr s'"
    "gerrit_jira_map (view s') =
        [\<lparr>map_issue = ''PROJ-1'', map_changeid = ''I7''\<rparr>,
         \<lparr>map_issue = ''PROJ-1'', map_changeid = ''I42''\<rparr>]"
    "stored s' = view s'"
    by (auto simp: m)
  have "\<lparr>map_issue = ''PROJ-1'', map_changeid = ''I42''\<rparr> \<in> set (gerrit_jira_map (view s'))"
    by (simp add: s'(2))
  then have "upsert_association ''PROJ-1'' ''I42'' s' = Inr s'"
    using upsert_association_idempotent [of "''PROJ-1''" "''I42''" s'] by blast
  with m a b s' show ?thesis by blast
qed

section \<open>The goal state\<close>

lemma append_resolutions_result:
  "map_of tm k = Some st \<Longrightarrow>
   append_resolutions tm k issues pairs = Inr (pairs @ map (\<lambda>i. (i, st)) issues)"
  by (induction issues arbitrary: pairs) simp_all

lemma change_resolutions_result:
  "map_of tm ''Closes'' = Some c \<Longrightarrow> map_of tm ''Resolves'' = Some rs \<Longrightarrow>
   change_resolutions tm meta =
     Inr (map (\<lambda>i. (i, c)) (Closes meta) @ map (\<lambda>i. (i, rs)) (Resolves meta))"
  by (simp add: change_resolutions_def append_resolutions_result)

lemma process_change_pairs:
  "ci_status ci = Some st \<Longrightarrow> st \<noteq> ''ABANDONED'' \<Longrightarrow> ci_change_id ci = Some cid \<Longrightarrow>
   ci_current_revision ci = Some revision \<Longrightarrow> get_message_meta g cid revision = Inr meta \<Longrightarrow>
   change_resolutions tm meta = Inr pairs \<Longrightarrow>
   process_change g jc dry nf tm rt ci w =
     for_each (process_pair jc dry nf tm rt ci cid st) pairs (emit (PrintChange cid st) w)"
  by (simp add: process_change_def)

lemma process_pair_goal_logged:
  assumes "process_pair jc dry nf tm rt ci cid st (k, resolution) w = (w', r)"
    and "issue jc (jira w) k = Inr iss"
  shows "\<exists>rest. new_events w w' =
     InfoGoal k (status_name iss) (goal_state_of st resolution) # rest"
proof -
  let ?g = "goal_state_of st resolution"
  from process_pair_found [OF assms] obtain s' where
    adv: "advance_issue jc dry nf tm rt ci k iss ?g
       (emit (InfoGoal k (status_name iss) ?g) (w\<lparr>sql := s'\<rparr>)) = (w', r)"
    by blast
  from application_effectD [OF advance_issue_effect
      [of tm k iss ?g "emit (InfoGoal k (status_name iss) ?g) (w\<lparr>sql := s'\<rparr>)" jc dry nf rt ci,
       unfolded adv]]
  obtain new where "trace w' = trace w @ InfoGoal k (status_name iss) ?g # new"
    by auto
  then show ?thesis by (simp add: new_events_def)
qed

text \<open>
  C5. For a merged change the goal state of an issue is the state the tag map gives for
  the tag (Closes or Resolves) under which the commit message names the issue; for a
  draft it is 'In Progress'; for a new change, and for any other status that is not
  ABANDONED, it is 'In Review'. That goal state is what the run logs for the issue. An
  abandoned change has no goal state: its body prints the change, deletes the change's
  associations in the session and goes on to the next change.
\<close>

theorem goal_state_of_change:
  "goal_state_of ''MERGED'' resolution = resolution \<and>
   goal_state_of ''DRAFT'' resolution = ''In Progress'' \<and>
   goal_state_of ''NEW'' resolution = ''In Review'' \<and>
   (st \<noteq> ''MERGED'' \<and> st \<noteq> ''DRAFT'' \<longrightarrow> goal_state_of st resolution = ''In Review'') \<and>
   (map_of tm ''Closes'' = Some c \<and> map_of tm ''Resolves'' = Some rs \<longrightarrow>
      change_resolutions tm meta =
        Inr (map (\<lambda>i. (i, c)) (Closes meta) @ map (\<lambda>i. (i, rs)) (Resolves meta))) \<and>
   (ci_status ci = Some st \<and> st \<noteq> ''ABANDONED'' \<and> ci_change_id ci = Some cid \<and>
    ci_current_revision ci = Some revision \<and> get_message_meta g cid revision = Inr meta \<and>
    change_resolutions tm meta = Inr pairs \<longrightarrow>
      process_change g jc dry nf tm rt ci w =
        for_each (process_pair jc dry nf tm rt ci cid st) pairs (emit (PrintChange cid st) w)) \<and>
   (process_pair jc dry nf tm rt ci cid st (k, resolution) v = (v', r) \<and>
    issue jc (jira v) k = Inr iss \<longrightarrow>
      (\<exists>rest. new_events v v' =
         InfoGoal k (status_name iss) (goal_state_of st resolution) # rest)) \<and>
   (ci_status ci = Some ''ABANDONED'' \<and> ci_change_id ci = Some cid \<longrightarrow>
      process_change g jc dry nf tm rt ci w =
        ((emit (PrintChange cid ''ABANDONED'') w)\<lparr>sql := delete_changeid cid (sql w)\<rparr>, None) \<and>
      gerrit_jira_map (view (delete_changeid cid (sql w))) =
        filter (\<lambda>row. map_changeid row \<noteq> cid) (gerrit_jira_map (view (sql w))))"
proof (intro conjI impI)
  assume "map_of tm ''Closes'' = Some c \<and> map_of tm ''Resolves'' = Some rs"
  then show "change_resolutions tm meta =
        Inr (map (\<lambda>i. (i, c)) (Closes meta) @ map (\<lambda>i. (i, rs)) (Resolves meta))"
    by (simp add: change_resolutions_result)
next
  assume "ci_status ci = Some st \<and> st \<noteq> ''ABANDONED'' \<and> ci_change_id ci = Some cid \<and>
    ci_current_revision ci = Some revision \<and> get_message_meta g cid revision = Inr meta \<and>
    change_resolutions tm meta = Inr pairs"
  then show "process_change g jc dry nf tm rt ci w =
        for_each (process_pair jc dry nf tm rt ci cid st) pairs (emit (PrintChange cid st) w)"
    by (simp add: process_change_pairs)
next
  assume "process_pair jc dry nf tm rt ci cid st (k, resolution) v = (v', r) \<and>
    issue jc (jira v) k = Inr iss"
  then show "\<exists>rest. new_events v v' =
         InfoGoal k (status_name iss) (goal_state_of st resolution) # rest"
    using process_pair_goal_logged [of jc dry nf tm rt ci cid st k resolution v v' r iss] by simp
next
  assume "ci_status ci = Some ''ABANDONED'' \<and> ci_change_id ci = Some cid"
  then show "process_change g jc dry nf tm rt ci w =
        ((emit (PrintChange cid ''ABANDONED'') w)\<lparr>sql := delete_changeid cid (sql w)\<rparr>, None)"
    by (simp add: process_change_abandoned)
qed (simp_all add: goal_state_of_def delete_changeid_def)

theorem goal_state_of_change_witness:
  "goal_state_of ''SUBMITTED'' ''Resolved'' = ''In Review'' \<and>
   change_resolutions closing_tag_map example_meta =
     Inr [(''PROJ-1'', ''Closed''), (''PROJ-2'', ''Resolved''), (''PROJ-3'', ''Resolved'')] \<and>
   new_events example_world (fst rejected_pair) ! 0 = InfoGoal ''PROJ-1'' ''Open'' ''Resolved'' \<and>
   process_change example_gerrit (fake_jira example_transitions True) False example_flow
     example_tag_map done_resolution abandoned_change shared_world =
     ((emit (PrintChange ''I7'' ''ABANDONED'') shared_world)
        \<lparr>sql := delete_changeid ''I7'' (sql shared_world)\<rparr>, None) \<and>
   gerrit_jira_map (view (delete_changeid ''I7'' (sql shared_world))) = []"
proof -
  have "''SUBMITTED'' \<noteq> ''MERGED'' \<and> ''SUBMITTED'' \<noteq> ''DRAFT'' \<longrightarrow>
      goal_state_of ''SUBMITTED'' ''Resolved'' = ''In Review''"
    using goal_state_of_change [of "''Resolved''" "''SUBMITTED''"] by blast
  then have 1: "goal_state_of ''SUBMITTED'' ''Resolved'' = ''In Review''"
    by simp
  have 2: "change_resolutions closing_tag_map example_meta =
     Inr [(''PROJ-1'', ''Closed''), (''PROJ-2'', ''Resolved''), (''PROJ-3'', ''Resolved'')]"
  proof -
    have "map_of closing_tag_map ''Closes'' = Some ''Closed'' \<and>
        map_of closing_tag_map ''Resolves'' = Some ''Resolved''"
      by (simp add: closing_tag_map_def)
    then have "change_resolutions closing_tag_map example_meta =
        Inr (map (\<lambda>i. (i, ''Closed'')) (Closes example_meta) @
             map (\<lambda>i. (i, ''Resolved'')) (Resolves example_meta))"
      using goal_state_of_change [where tm = closing_tag_map and c = "''Closed''"
          and rs = "''Resolved''" and meta = example_meta]
      by blast
    then show ?thesis by (simp add: example_meta_def empty_meta_def)
  qed
  have 3: "new_events example_world (fst rejected_pair) ! 0 =
      InfoGoal ''PROJ-1'' ''Open'' ''Resolved''"
  proof -
    have p: "process_pair (fake_jira example_transitions False) False example_flow
       example_tag_map done_resolution (example_change ''MERGED'') ''I42'' ''MERGED''
       (''PROJ-1'', ''Resolved'') example_world = (fst rejected_pair, snd rejected_pair)"
      by (simp add: rejected_pair_def)
    have i: "issue (fake_jira example_transitions False) (jira example_world) ''PROJ-1'' =
        Inr \<lparr>key = ''PROJ-1'', status_name = ''Open''\<rparr>"
      by (simp add: fake_jira_def example_world_def)
    have "\<exists>rest. new_events example_world (fst rejected_pair) =
        InfoGoal ''PROJ-1'' (status_name \<lparr>key = ''PROJ-1'', status_name = ''Open''\<rparr>)
          (goal_state_of ''MERGED'' ''Resolved'') # rest"
      using goal_state_of_change [where resolution = "''Resolved''" and st = "''MERGED''"
          and jc = "fake_jira example_transitions False" and dry = False and nf = example_flow
          and tm = example_tag_map and rt = done_resolution and ci = "example_change ''MERGED''"
          and cid = "''I42''" and k = "''PROJ-1''" and v = example_world
          and v' = "fst rejected_pair" and r = "snd rejected_pair"
          and iss = "\<lparr>key = ''PROJ-1'', status_name = ''Open''\<rparr>"] p i
      by blast
    moreover have "goal_state_of ''MERGED'' ''Resolved'' = ''Resolved''"
      using goal_state_of_change [of "''Resolved''"] by blast
    ultimately show ?thesis by auto
  qed
  have a: "ci_status abandoned_change = Some ''ABANDONED'' \<and>
      ci_change_id abandoned_change = Some ''I7''"
    by (simp add: abandoned_change_def example_change_def)
  have 4: "process_change example_gerrit (fake_jira example_transitions True) False example_flow
     example_tag_map done_resolution abandoned_change shared_world =
     ((emit (PrintChange ''I7'' ''ABANDONED'') shared_world)
        \<lparr>sql := delete_changeid ''I7'' (sql shared_world)\<rparr>, None)"
    using goal_state_of_change [where ci = abandoned_change and cid = "''I7''"
        and g = example_gerrit and jc = "fake_jira example_transitions True" and dry = False
        and nf = example_flow and tm = example_tag_map and rt = done_resolution
        and w = shared_world] a
    by blast
  have "gerrit_jira_map (view (delete_changeid ''I7'' (sql shared_world))) =
      filter (\<lambda>row. map_changeid row \<noteq> ''I7'') (gerrit_jira_map (view (sql shared_world)))"
    using goal_state_of_change [where ci = abandoned_change and cid = "''I7''"
        and w = shared_world] a
    by blast
  then have 5: "gerrit_jira_map (view (delete_changeid ''I7'' (sql shared_world))) = []"
    by (simp add: shared_world_def empty_tables_def)
  from 1 2 3 4 5 show ?thesis by blast
qed


section \<open>The nominal flow\<close>

lemma process_pair_calls_guarded:
  assumes pp: "process_pair jc dry nf tm rt ci cid st (k, resolution) w = (w', r)"
    and e: "e \<in> set (new_events w w')" and c: "is_tracker_call e"
  shows "\<exists>iss s'. issue jc (jira w) k = Inr iss \<and> upsert_association k cid (sql w) = Inr s' \<and>
     guards_pass nf k iss (goal_state_of st resolution) s'"
proof (cases "issue jc (jira w) k")
  case (Inl x)
  from process_pair_not_found [OF pp Inl] e c show ?thesis
    by (auto simp: new_events_def)
next
  case (Inr iss)
  let ?g = "goal_state_of st resolution"
  from process_pair_found [OF pp Inr] obtain s' where
    up: "upsert_association k cid (sql w) = Inr s'" and
    adv: "advance_issue jc dry nf tm rt ci k iss ?g
       (emit (InfoGoal k (status_name iss) ?g) (w\<lparr>sql := s'\<rparr>)) = (w', r)"
    by blast
  let ?w1 = "emit (InfoGoal k (status_name iss) ?g) (w\<lparr>sql := s'\<rparr>)"
  from application_effectD [OF advance_issue_effect [of tm k iss ?g ?w1 jc dry nf rt ci,
      unfolded adv]]
  obtain new1 where n1: "trace w' = trace ?w1 @ new1" by auto
  then have "new_events w w' = InfoGoal k (status_name iss) ?g # new1"
    by (simp add: new_events_def)
  with e c n1 have "e \<in> set (new_events ?w1 w')" by auto
  from advance_issue_calls_guarded [OF adv this c] have "guards_pass nf k iss ?g s'" by simp
  with Inr up show ?thesis by blast
qed

text \<open>
  C1. The forward check, as update_issues_from_review calls it for a project key, holds
  exactly when the project has a flow, the flow has an entry for the from-state, and the
  to-state is in that entry. A project without a flow, or a from-state without an entry,
  allows nothing. For the flow {A: [B], B: [C]}, C to B is refused and A to B accepted.
  No call to the tracker about transitions is made for an issue unless the check holds
  for the issue's project prefix, its current state and the goal state.
\<close>

theorem is_nominal_transition_iff:
  "(is_nominal_transition (dict_get nominal_flow project_key Map.empty) from_state to_state
      \<longleftrightarrow> (\<exists>flow allowed. nominal_flow project_key = Some flow \<and>
             flow from_state = Some allowed \<and> to_state \<in> set allowed)) \<and>
   (nominal_flow project_key = None \<longrightarrow>
      \<not> is_nominal_transition (dict_get nominal_flow project_key Map.empty) from_state to_state) \<and>
   (flow from_state = None \<longrightarrow> \<not> is_nominal_transition flow from_state to_state) \<and>
   \<not> is_nominal_transition [''A'' \<mapsto> [''B''], ''B'' \<mapsto> [''C'']] ''C'' ''B'' \<and>
   is_nominal_transition [''A'' \<mapsto> [''B''], ''B'' \<mapsto> [''C'']] ''A'' ''B'' \<and>
   (process_pair jc dry nominal_flow tm rt ci cid st (k, resolution) w = (w', r) \<and>
    e \<in> set (new_events w w') \<and> is_tracker_call e \<longrightarrow>
      (\<exists>iss. issue jc (jira w) k = Inr iss \<and>
         is_nominal_transition (dict_get nominal_flow (project_of iss) Map.empty)
           (status_name iss) (goal_state_of st resolution)))"
proof (intro conjI impI)
  assume "process_pair jc dry nominal_flow tm rt ci cid st (k, resolution) w = (w', r) \<and>
    e \<in> set (new_events w w') \<and> is_tracker_call e"
  then show "\<exists>iss. issue jc (jira w) k = Inr iss \<and>
         is_nominal_transition (dict_get nominal_flow (project_of iss) Map.empty)
           (status_name iss) (goal_state_of st resolution)"
    using process_pair_calls_guarded [of jc dry nominal_flow tm rt ci cid st k resolution w w' r e]
    by (auto simp: guards_pass_def)
qed (auto simp: is_nominal_transition_def dict_get_def split: option.splits dest: sym)

theorem is_nominal_transition_iff_witness:
  "is_nominal_transition (dict_get example_flow ''PROJ'' Map.empty) ''Open'' ''In Review'' \<and>
   \<not> is_nominal_transition (dict_get example_flow ''R1'' Map.empty) ''Open'' ''In Review'' \<and>
   \<not> is_nominal_transition [''Open'' \<mapsto> [''In Review'']] ''Resolved'' ''In Review'' \<and>
   CallTransitions ''PROJ-1'' \<in> set (new_events example_world (fst accepted_pair)) \<and>
   is_nominal_transition
     (dict_get example_flow (project_of \<lparr>key = ''PROJ-1'', status_name = ''Open''\<rparr>) Map.empty)
     ''Open'' (goal_state_of ''NEW'' ''Resolved'') \<and>
   project_of \<lparr>key = ''PROJ-1'', status_name = ''Open''\<rparr> = ''PROJ''"
proof -
  have f: "example_flow ''PROJ'' = Some [''Open'' \<mapsto> [''In Review'', ''Resolved''],
      ''In Review'' \<mapsto> [''Resolved'']]" "example_flow ''R1'' = None"
    by (simp_all add: example_flow_def)
  have 1: "is_nominal_transition (dict_get example_flow ''PROJ'' Map.empty) ''Open'' ''In Review''"
    using is_nominal_transition_iff [where nominal_flow = example_flow
        and project_key = "''PROJ''" and from_state = "''Open''" and to_state = "''In Review''",
        THEN conjunct1] f
    by simp
  have 2: "\<not> is_nominal_transition (dict_get example_flow ''R1'' Map.empty) ''Open'' ''In Review''"
    using is_nominal_transition_iff [where nominal_flow = example_flow
        and project_key = "''R1''" and from_state = "''Open''" and to_state = "''In Review''",
        THEN conjunct2, THEN conjunct1] f
    by simp
  have 3: "\<not> is_nominal_transition [''Open'' \<mapsto> [''In Review'']] ''Resolved'' ''In Review''"
    using is_nominal_transition_iff [where flow = "[''Open'' \<mapsto> [''In Review'']]"
        and from_state = "''Resolved''" and to_state = "''In Review''",
        THEN conjunct2, THEN conjunct2, THEN conjunct1]
    by simp
  have c: "CallTransitions ''PROJ-1'' \<in> set (new_events example_world (fst accepted_pair))"
    by (simp add: accepted_pair_def run_defs new_events_def)
  have p: "process_pair (fake_jira example_transitions True) False example_flow example_tag_map
       done_resolution (example_change ''NEW'') ''I42'' ''NEW'' (''PROJ-1'', ''Resolved'')
       example_world = (fst accepted_pair, snd accepted_pair)"
    by (simp add: accepted_pair_def)
  have i: "issue (fake_jira example_transitions True) (jira example_world) ''PROJ-1'' =
      Inr \<lparr>key = ''PROJ-1'', status_name = ''Open''\<rparr>"
    by (simp add: fake_jira_def example_world_def)
  have "\<exists>iss. issue (fake_jira example_transitions True) (jira example_world) ''PROJ-1'' = Inr iss \<and>
      is_nominal_transition (dict_get example_flow (project_of iss) Map.empty)
        (status_name iss) (goal_state_of ''NEW'' ''Resolved'')"
    using is_nominal_transition_iff [where nominal_flow = example_flow
        and jc = "fake_jira example_transitions True" and dry = False and tm = example_tag_map
        and rt = done_resolution and ci = "example_change ''NEW''" and cid = "''I42''"
        and st = "''NEW''" and k = "''PROJ-1''" and resolution = "''Resolved''"
        and w = example_world and w' = "fst accepted_pair" and r = "snd accepted_pair"
        and e = "CallTransitions ''PROJ-1''",
        THEN conjunct2, THEN conjunct2, THEN conjunct2, THEN conjunct2, THEN conjunct2] p c
    by simp
  with i have 4: "is_nominal_transition
      (dict_get example_flow (project_of \<lparr>key = ''PROJ-1'', status_name = ''Open''\<rparr>) Map.empty)
      ''Open'' (goal_state_of ''NEW'' ''Resolved'')"
    by auto
  have 5: "project_of \<lparr>key = ''PROJ-1'', status_name = ''Open''\<rparr> = ''PROJ''"
    by (simp add: project_of_def)
  from 1 2 3 c 4 5 show ?thesis by blast
qed


end
